theory Spec2Isabelle
  imports Complex_Main "HOL-Library.AList"
begin

section \<open>Exceptions\<close>

text \<open>
  The Python exceptions that the functions of \<^verbatim>\<open>thelper/data/geo/utils.py\<close> can raise.
  A failing \<^verbatim>\<open>assert\<close> is an \<open>AssertionError\<close> carrying the message of the
  statement; \<open>TransformNotInvertibleError\<close> is raised by the \<^verbatim>\<open>affine\<close> package
  when a degenerate transform is inverted.
\<close>

datatype exn =
    AssertionError string
  | TransformNotInvertibleError
  | AttributeError
  | KeyError string
  | TypeError
  | ValueError

section \<open>Python values\<close>

text \<open>
  The values found in a decoded GeoJSON tree, and the geometry objects that
  \<^verbatim>\<open>parse_geojson\<close> stores into it. A dictionary is an association list in insertion
  order, with distinct keys.
\<close>

datatype 'g pyval =
    PNone
  | PBool bool
  | PInt int
  | PFloat real
  | PStr string
  | PList "'g pyval list"
  | PDict "(string \<times> 'g pyval) list"
  | PGeom 'g

text \<open>Error propagation: the rest of a block runs only if the statement did not raise.\<close>

definition ebind :: "exn + 'a \<Rightarrow> ('a \<Rightarrow> exn + 'b) \<Rightarrow> exn + 'b" where
  "ebind m f = (case m of Inl err \<Rightarrow> Inl err | Inr v \<Rightarrow> f v)"

text \<open>
  Truth value of an object, as tested by \<^verbatim>\<open>or\<close>, \<^verbatim>\<open>if\<close> and \<^verbatim>\<open>not\<close>. A geometry
  object is taken to be true; the code never tests one.
\<close>

fun truthy :: "'g pyval \<Rightarrow> bool" where
  "truthy PNone = False"
| "truthy (PBool b) = b"
| "truthy (PInt n) = (n \<noteq> 0)"
| "truthy (PFloat r) = (r \<noteq> 0)"
| "truthy (PStr s) = (s \<noteq> [])"
| "truthy (PList xs) = (xs \<noteq> [])"
| "truthy (PDict d) = (d \<noteq> [])"
| "truthy (PGeom g) = True"

text \<open>\<^verbatim>\<open>obj.get(key, default)\<close>: only a dictionary has the method.\<close>

fun py_get :: "'g pyval \<Rightarrow> string \<Rightarrow> 'g pyval \<Rightarrow> exn + 'g pyval" where
  "py_get (PDict d) key dflt = Inr (case map_of d key of None \<Rightarrow> dflt | Some v \<Rightarrow> v)"
| "py_get _ key dflt = Inl AttributeError"

text \<open>
  \<^verbatim>\<open>obj[key]\<close> with a string key: a missing key raises \<open>KeyError\<close>; an object that is
  not a dictionary raises \<open>TypeError\<close>.
\<close>

fun py_getitem :: "'g pyval \<Rightarrow> string \<Rightarrow> exn + 'g pyval" where
  "py_getitem (PDict d) key = (case map_of d key of None \<Rightarrow> Inl (KeyError key) | Some v \<Rightarrow> Inr v)"
| "py_getitem _ key = Inl TypeError"

text \<open>\<^verbatim>\<open>obj[key] = v\<close> on a dictionary.\<close>

fun py_setitem :: "'g pyval \<Rightarrow> string \<Rightarrow> 'g pyval \<Rightarrow> 'g pyval" where
  "py_setitem (PDict d) key v = PDict (AList.update key v d)"
| "py_setitem obj key v = obj"

text \<open>\<^verbatim>\<open>list(obj.values())\<close>.\<close>

fun py_values :: "'g pyval \<Rightarrow> exn + 'g pyval list" where
  "py_values (PDict d) = Inr (map snd d)"
| "py_values _ = Inl AttributeError"

text \<open>
  String methods whose result depends on the Unicode tables or on the grammar of
  integer literals are parameters: \<^verbatim>\<open>s.upper()\<close> and \<^verbatim>\<open>int(s)\<close> (\<open>None\<close> when
  \<^verbatim>\<open>int\<close> raises \<open>ValueError\<close>).
\<close>

record builtins =
  str_upper :: "string \<Rightarrow> string"
  int_of_str :: "string \<Rightarrow> int option"

fun py_upper :: "builtins \<Rightarrow> 'g pyval \<Rightarrow> exn + string" where
  "py_upper py (PStr s) = Inr (str_upper py s)"
| "py_upper py _ = Inl AttributeError"

text \<open>
  \<^verbatim>\<open>pat in s\<close> on strings, \<^verbatim>\<open>s.split(sep)\<close> for a one-character separator,
  \<^verbatim>\<open>s.replace(old, new)\<close> for a non-empty \<open>old\<close> (occurrences are replaced from left
  to right, without overlap) and \<^verbatim>\<open>s.endswith(suffix)\<close>.
\<close>

fun str_contains :: "string \<Rightarrow> string \<Rightarrow> bool" where
  "str_contains pat [] = (pat = [])"
| "str_contains pat (c # cs) = (take (length pat) (c # cs) = pat \<or> str_contains pat cs)"

fun str_split :: "char \<Rightarrow> string \<Rightarrow> string list" where
  "str_split sep [] = [[]]"
| "str_split sep (c # cs) =
     (if c = sep then [] # str_split sep cs
      else (case str_split sep cs of [] \<Rightarrow> [[c]] | p # ps \<Rightarrow> (c # p) # ps))"

function str_replace :: "string \<Rightarrow> string \<Rightarrow> string \<Rightarrow> string" where
  "str_replace old new [] = []"
| "str_replace old new (c # cs) =
     (if old \<noteq> [] \<and> take (length old) (c # cs) = old
      then new @ str_replace old new (drop (length old) (c # cs))
      else c # str_replace old new cs)"
  by pat_completeness auto
termination
  by (relation "measure (\<lambda>(old, new, s). length s)") (auto simp: neq_Nil_conv)

definition str_endswith :: "string \<Rightarrow> string \<Rightarrow> bool" where
  "str_endswith s suffix \<longleftrightarrow>
     length suffix \<le> length s \<and> drop (length s - length suffix) s = suffix"

text \<open>
  \<^verbatim>\<open>":EPSG:" in obj\<close>: a substring test on a string, a membership test on a list, a key
  test on a dictionary; other objects are not iterable.
\<close>

fun py_contains :: "string \<Rightarrow> 'g pyval \<Rightarrow> exn + bool" where
  "py_contains pat (PStr s) = Inr (str_contains pat s)"
| "py_contains pat (PList xs) = Inr (PStr pat \<in> set xs)"
| "py_contains pat (PDict d) = Inr (pat \<in> set (map fst d))"
| "py_contains pat _ = Inl TypeError"

text \<open>\<^verbatim>\<open>int(obj.split(":")[-1])\<close>: the split is never empty, so \<^verbatim>\<open>[-1]\<close> is its last element.\<close>

fun int_of_last_field :: "builtins \<Rightarrow> 'g pyval \<Rightarrow> exn + int" where
  "int_of_last_field py (PStr s) =
     (case int_of_str py (last (str_split CHR '':'' s)) of
        None \<Rightarrow> Inl ValueError
      | Some n \<Rightarrow> Inr n)"
| "int_of_last_field py _ = Inl AttributeError"

section \<open>Affine transform (\<^verbatim>\<open>get_pxcoord\<close>, \<^verbatim>\<open>get_geocoord\<close>, \<^verbatim>\<open>get_geoextent\<close>)\<close>

text \<open>
  Coordinates are Python floats; they are modelled by exact reals, so that every
  statement below is one of exact arithmetic. A GDAL geotransform is the 6-tuple
  \<open>(orig_x, res_x, skew_x, orig_y, skew_y, res_y)\<close>.
\<close>

type_synonym point = "real \<times> real"

type_synonym geotransform = "real \<times> real \<times> real \<times> real \<times> real \<times> real"

text \<open>
  \<^verbatim>\<open>affine.Affine(a, b, c, d, e, f)\<close>: the matrix rows \<open>(a b c)\<close> and \<open>(d e f)\<close>.
  \<^verbatim>\<open>Affine.from_gdal(c, a, b, f, d, e)\<close> reorders the GDAL tuple.
\<close>

record affine =
  aa :: real
  ab :: real
  ac :: real
  ad :: real
  ae :: real
  af :: real

fun from_gdal :: "geotransform \<Rightarrow> affine" where
  "from_gdal (c, a, b, f, d, e) = \<lparr>aa = a, ab = b, ac = c, ad = d, ae = e, af = f\<rparr>"

definition determinant :: "affine \<Rightarrow> real" where
  "determinant t = aa t * ae t - ab t * ad t"

definition is_degenerate :: "affine \<Rightarrow> bool" where
  "is_degenerate t \<longleftrightarrow> determinant t = 0"

text \<open>\<^verbatim>\<open>Affine.__invert__\<close>: raises on a degenerate transform.\<close>

definition invert :: "affine \<Rightarrow> exn + affine" where
  "invert t =
     (if is_degenerate t then Inl TransformNotInvertibleError
      else
        let idet = 1 / determinant t;
            ra = ae t * idet;
            rb = - ab t * idet;
            rd = - ad t * idet;
            re = aa t * idet
        in Inr \<lparr>aa = ra, ab = rb, ac = - ac t * ra - af t * rb,
                ad = rd, ae = re, af = - ac t * rd - af t * re\<rparr>)"

text \<open>\<^verbatim>\<open>Affine.__mul__\<close> applied to a pair \<open>(vx, vy)\<close>.\<close>

fun mul :: "affine \<Rightarrow> point \<Rightarrow> point" where
  "mul t (vx, vy) = (vx * aa t + vy * ab t + ac t, vx * ad t + vy * ae t + af t)"

definition get_pxcoord :: "geotransform \<Rightarrow> real \<Rightarrow> real \<Rightarrow> exn + point" where
  "get_pxcoord geotransform x y =
     (case invert (from_gdal geotransform) of
        Inl err \<Rightarrow> Inl err
      | Inr inv_transform \<Rightarrow> Inr (mul inv_transform (x, y)))"

definition get_geocoord :: "geotransform \<Rightarrow> real \<Rightarrow> real \<Rightarrow> point" where
  "get_geocoord geotransform x y = mul (from_gdal geotransform) (x, y)"

definition get_geoextent :: "geotransform \<Rightarrow> real \<Rightarrow> real \<Rightarrow> real \<Rightarrow> real \<Rightarrow> point list" where
  "get_geoextent geotransform x y cols rows =
     (let tl = get_geocoord geotransform x y;
          bl = get_geocoord geotransform x (y + rows);
          br = get_geocoord geotransform (x + cols) (y + rows);
          tr = get_geocoord geotransform (x + cols) y
      in [tl, bl, br, tr])"

section \<open>The geometry collaborator\<close>

text \<open>
  Geometries are objects of the \<^verbatim>\<open>shapely\<close> package, which is not part of the
  repository. A geometry is a value of an arbitrary type \<open>'g\<close>, and the attributes and
  methods that the code reads are the fields of a record of operations:
  \<^verbatim>\<open>geom.bounds\<close> is the tuple \<open>(minx, miny, maxx, maxy)\<close>, \<^verbatim>\<open>geom.centroid\<close> a
  point with fields \<open>x\<close> and \<open>y\<close>, \<^verbatim>\<open>geom.buffer(d)\<close> a new geometry,
  \<^verbatim>\<open>shapely.geometry.Polygon(points)\<close> the polygon with the given ring,
  \<^verbatim>\<open>geom.type\<close> the name of the geometry type, \<^verbatim>\<open>geom.is_valid\<close> the validity
  test, \<^verbatim>\<open>a.intersects(b)\<close>, \<^verbatim>\<open>a.contains(b)\<close> and \<^verbatim>\<open>a.intersection(b)\<close> the
  binary operations, \<^verbatim>\<open>shapely.geometry.shape(obj)\<close> the geometry of a GeoJSON object
  (it may raise), \<^verbatim>\<open>shapely.ops.cascaded_union(geoms)\<close> the union of a list. Nothing is
  assumed of these operations.
\<close>

record 'g shapely =
  bounds :: "'g \<Rightarrow> real \<times> real \<times> real \<times> real"
  centroid :: "'g \<Rightarrow> point"
  buffer :: "'g \<Rightarrow> real \<Rightarrow> 'g"
  polygon :: "point list \<Rightarrow> 'g"
  geom_type :: "'g \<Rightarrow> string"
  is_valid :: "'g \<Rightarrow> bool"
  intersects :: "'g \<Rightarrow> 'g \<Rightarrow> bool"
  contains :: "'g \<Rightarrow> 'g \<Rightarrow> bool"
  intersection :: "'g \<Rightarrow> 'g \<Rightarrow> 'g"
  shape :: "'g pyval \<Rightarrow> exn + 'g"
  cascaded_union :: "'g list \<Rightarrow> 'g"

section \<open>Feature bounding box and crop window (\<^verbatim>\<open>get_feature_bbox\<close>, \<^verbatim>\<open>get_feature_roi\<close>)\<close>

text \<open>
  Python truth values of the optional arguments: \<^verbatim>\<open>None\<close>, an empty sequence and
  the number zero are false.
\<close>

fun truthy_seq :: "'a list option \<Rightarrow> bool" where
  "truthy_seq None = False"
| "truthy_seq (Some xs) = (xs \<noteq> [])"

fun truthy_int :: "int option \<Rightarrow> bool" where
  "truthy_int None = False"
| "truthy_int (Some n) = (n \<noteq> 0)"


definition get_feature_bbox :: "'g shapely \<Rightarrow> 'g \<Rightarrow> real list option \<Rightarrow> exn + (point \<times> point)" where
  "get_feature_bbox sh geom offsets =
     (if truthy_seq offsets \<and> length (the offsets) \<noteq> 2
      then Inl (AssertionError ''offset param must be 2d'')
      else
        let (b0, b1, b2, b3) = bounds sh geom;
            (roi_tl, roi_br) =
              (if truthy_seq offsets then
                 let (cx, cy) = centroid sh geom
                 in ((cx - the offsets ! 0, cy + the offsets ! 1),
                     (cx + the offsets ! 0, cy - the offsets ! 1))
               else ((b0, b3), (b2, b1)))
        in Inr ((min (fst roi_tl) (fst roi_br), min (snd roi_tl) (snd roi_br)),
                (max (fst roi_tl) (fst roi_br), max (snd roi_tl) (snd roi_br))))"




section \<open>Coordinate reference systems (\<^verbatim>\<open>parse_coordinate_system\<close>)\<close>

text \<open>
  Spatial references are objects of GDAL's \<^verbatim>\<open>osr\<close> package, values of an arbitrary
  type \<open>'srs\<close>. \<open>import_from kind args\<close> is the call
  \<^verbatim>\<open>crs.ImportFromEPSG(*args)\<close> (and its siblings) on a fresh
  \<^verbatim>\<open>SpatialReference()\<close>: it raises, or returns the error code together with the
  state of \<open>crs\<close> after the call; code 0 means success. \<open>new_srs\<close> is the fresh object,
  \<open>import_from_wkt\<close> the state after \<^verbatim>\<open>ImportFromWkt\<close>, \<open>is_same\<close> the method
  \<^verbatim>\<open>IsSame\<close>, and \<open>transform_geom src tgt\<close> the effect on a geometry of
  \<^verbatim>\<open>osr.CoordinateTransformation(src, tgt)\<close>, applied through the WKB export, the
  \<^verbatim>\<open>ogr\<close> transformation and the WKT import.
\<close>

datatype importer = EPSG | EPSGA | ERM | ESRI | USGS | PCI

record ('g, 'srs) osr =
  new_srs :: "'srs"
  import_from :: "importer \<Rightarrow> 'g pyval list \<Rightarrow> exn + (int \<times> 'srs)"
  import_from_wkt :: "string \<Rightarrow> 'srs"
  is_same :: "'srs \<Rightarrow> 'srs \<Rightarrow> bool"
  transform_geom :: "'srs \<Rightarrow> 'srs \<Rightarrow> 'g \<Rightarrow> 'g"

text \<open>Line 76: \<^verbatim>\<open>body.get("crs") or body.get("srs")\<close>.\<close>

definition crs_body_of :: "'g pyval \<Rightarrow> exn + 'g pyval" where
  "crs_body_of body =
     ebind (py_get body ''crs'' PNone) (\<lambda>crs.
       if truthy crs then Inr crs else py_get body ''srs'' PNone)"

definition parse_coordinate_system ::
  "builtins \<Rightarrow> ('g, 'srs) osr \<Rightarrow> 'g pyval \<Rightarrow> exn + 'srs" where
  "parse_coordinate_system py osr body =
     ebind (crs_body_of body) (\<lambda>crs_body.
     ebind (py_get crs_body ''type'' (PStr '''')) (\<lambda>ty.
     ebind (py_upper py ty) (\<lambda>crs_type.
     ebind (py_get crs_body ''properties'' PNone) (\<lambda>props.
     ebind (py_values props) (\<lambda>crs_opts.
     ebind
       (if crs_type = ''EPSG'' then import_from osr EPSG crs_opts
        else if crs_type = ''EPSGA'' then import_from osr EPSGA crs_opts
        else if crs_type = ''ERM'' then import_from osr ERM crs_opts
        else if crs_type = ''ESRI'' then import_from osr ESRI crs_opts
        else if crs_type = ''USGS'' then import_from osr USGS crs_opts
        else if crs_type = ''PCI'' then import_from osr PCI crs_opts
        else if crs_type = ''NAME'' \<and> length crs_opts = 1 then
          ebind (py_contains '':EPSG:'' (crs_opts ! 0)) (\<lambda>has_token.
            if has_token then
              ebind (int_of_last_field py (crs_opts ! 0)) (\<lambda>code.
                import_from osr EPSG [PInt code])
            else Inr (- 1, new_srs osr))
        else Inr (- 1, new_srs osr))
       (\<lambda>(err, crs).
          if err \<noteq> 0 then Inl (AssertionError ''could not identify CRS/SRS type'')
          else Inr crs))))))"

text \<open>
  The descriptors that the specification calls recognized, for a descriptor \<open>d\<close> whose
  \<open>type\<close> entry is the string \<open>s\<close>: the upper-cased type is one of the six importer
  names, or it is \<open>NAME\<close> and the only property is a string with the token
  \<open>:EPSG:\<close>.
\<close>

definition recognized_crs :: "builtins \<Rightarrow> (string \<times> 'g pyval) list \<Rightarrow> string \<Rightarrow> bool" where
  "recognized_crs py d s \<longleftrightarrow>
     str_upper py s \<in> {''EPSG'', ''EPSGA'', ''ERM'', ''ESRI'', ''USGS'', ''PCI''}
     \<or> (str_upper py s = ''NAME''
        \<and> (\<exists>p opt. map_of d ''properties'' = Some (PDict p) \<and> map snd p = [PStr opt]
              \<and> str_contains '':EPSG:'' opt))"

section \<open>Raster metadata (\<^verbatim>\<open>parse_rasters\<close>)\<close>

text \<open>
  The target reference system given by the caller: a string, an integer or a spatial
  reference (the \<^verbatim>\<open>isinstance\<close> assertion holds by the type). Lines 106 to 114 of
  \<^verbatim>\<open>parse_rasters\<close> and lines 192 to 200 of \<^verbatim>\<open>parse_geojson\<close> are the same code:
  a string loses its \<^verbatim>\<open>EPSG:\<close> prefix and is read as an integer, and an integer is
  imported as an EPSG code; the error code of this import is not looked at.
\<close>

datatype 'srs srs_spec = SrsStr string | SrsInt int | SrsObj 'srs

fun resolve_srs_target ::
  "builtins \<Rightarrow> ('g, 'srs) osr \<Rightarrow> 'srs srs_spec option \<Rightarrow> exn + 'srs option" where
  "resolve_srs_target py osr None = Inr None"
| "resolve_srs_target py osr (Some (SrsObj obj)) = Inr (Some obj)"
| "resolve_srs_target py osr (Some (SrsInt code)) =
     ebind (import_from osr EPSG [PInt code]) (\<lambda>(err, obj). Inr (Some obj))"
| "resolve_srs_target py osr (Some (SrsStr s)) =
     (case int_of_str py (str_replace ''EPSG:'' [] s) of
        None \<Rightarrow> Inl ValueError
      | Some code \<Rightarrow> ebind (import_from osr EPSG [PInt code]) (\<lambda>(err, obj). Inr (Some obj)))"

text \<open>
  A raster dataset opened by GDAL: its geotransform, size and projection string, and
  for each band index the data type of the band (one of the integers \<open>GDT_*\<close>, where
  \<open>GDT_Unknown = 0\<close> and \<open>GDT_Byte = 1\<close>), or \<open>None\<close> when \<^verbatim>\<open>GetRasterBand\<close> returns
  \<^verbatim>\<open>None\<close>. \<open>gdal_open\<close> is \<^verbatim>\<open>gdal.Open(path, gdal.GA_ReadOnly)\<close> and \<open>path_exists\<close>
  is \<^verbatim>\<open>os.path.exists\<close> before the call.
\<close>

record rasterfile =
  GetGeoTransform :: geotransform
  RasterXSize :: int
  RasterYSize :: int
  GetProjectionRef :: string
  bands :: "int option list"

record gdal =
  gdal_open :: "string \<Rightarrow> rasterfile option"
  path_exists :: "string \<Rightarrow> bool"

text \<open>
  Lines 139 to 145: the loop over the bands. \<open>raster_datatype\<close> starts as \<^verbatim>\<open>None\<close>;
  \<^verbatim>\<open>if not raster_datatype\<close> holds for \<^verbatim>\<open>None\<close> and for the integer 0.
\<close>

fun check_bands :: "int option list \<Rightarrow> int option \<Rightarrow> exn + int option" where
  "check_bands [] raster_datatype = Inr raster_datatype"
| "check_bands (curr_band # rest) raster_datatype =
     (case curr_band of
        None \<Rightarrow> Inl (AssertionError ''found invalid raster band'')
      | Some band_type \<Rightarrow>
          let raster_datatype' =
                (if \<not> truthy_int raster_datatype then Some band_type else raster_datatype)
          in if raster_datatype' = Some band_type then check_bands rest raster_datatype'
             else Inl (AssertionError ''expected identical data types in all bands''))"

text \<open>One entry of \<open>rasters_data\<close>.\<close>

record ('g, 'srs) raster_data =
  rd_srs :: 'srs
  rd_geotransform :: geotransform
  rd_offset_geotransform :: geotransform
  rd_extent :: "point list"
  rd_skew :: point
  rd_resolution :: point
  rd_band_count :: nat
  rd_cols :: int
  rd_rows :: int
  rd_data_type :: "int option"
  rd_local_roi :: 'g
  rd_target_roi :: 'g
  rd_file_path :: string
  rd_reproj_path :: "string option"

text \<open>
  The body of the loop over the raster paths (lines 118 to 180). The state is the list
  of the files written by \<^verbatim>\<open>gdal.Warp\<close> so far; a file exists if it existed before the
  call or has been written.
\<close>

definition parse_raster ::
  "('g, 'srs) osr \<Rightarrow> 'g shapely \<Rightarrow> gdal \<Rightarrow> 'srs option \<Rightarrow> bool \<Rightarrow> string list \<Rightarrow> string
     \<Rightarrow> string list \<times> (exn + ('g, 'srs) raster_data)" where
  "parse_raster osr sh gd srs_target reproj written raster_path =
     (case gdal_open gd raster_path of
        None \<Rightarrow> (written, Inl (AssertionError ''could not open raster data file''))
      | Some rasterfile \<Rightarrow>
          let raster_geotransform = GetGeoTransform rasterfile;
              (orig_x, px_width, skew_x, orig_y, skew_y, px_height) = raster_geotransform;
              raster_extent = get_geoextent raster_geotransform 0 0
                                (of_int (RasterXSize rasterfile)) (of_int (RasterYSize rasterfile));
              raster_curr_srs_str = GetProjectionRef rasterfile
          in case
               ebind (if \<not> str_contains ''unknown'' raster_curr_srs_str
                      then Inr (import_from_wkt osr raster_curr_srs_str)
                      else (case srs_target of
                              None \<Rightarrow> Inl (AssertionError
                                ''raster did not provide an srs, and no target EPSG srs provided'')
                            | Some tgt \<Rightarrow> Inr tgt)) (\<lambda>raster_curr_srs.
               ebind (check_bands (bands rasterfile) None) (\<lambda>raster_datatype.
                 Inr (raster_curr_srs, raster_datatype)))
             of
               Inl err \<Rightarrow> (written, Inl err)
             | Inr (raster_curr_srs, raster_datatype) \<Rightarrow>
                 let local_roi = polygon sh raster_extent;
                     reprojected =
                       (case srs_target of
                          None \<Rightarrow> False
                        | Some tgt \<Rightarrow> \<not> is_same osr raster_curr_srs tgt);
                     target_roi =
                       (if reprojected
                        then transform_geom osr raster_curr_srs (the srs_target) local_roi
                        else local_roi);
                     reproj_path =
                       (if reprojected \<and> reproj then Some (raster_path @ ''.reproj.tif'') else None);
                     written' =
                       (case reproj_path of
                          None \<Rightarrow> written
                        | Some path \<Rightarrow>
                            if \<not> (path_exists gd path \<or> path \<in> set written)
                            then written @ [path] else written)
                 in (written',
                     Inr \<lparr>rd_srs = raster_curr_srs,
                          rd_geotransform = raster_geotransform,
                          rd_offset_geotransform = (0, px_width, skew_x, 0, skew_y, px_height),
                          rd_extent = raster_extent,
                          rd_skew = (skew_x, skew_y),
                          rd_resolution = (px_width, px_height),
                          rd_band_count = length (bands rasterfile),
                          rd_cols = RasterXSize rasterfile,
                          rd_rows = RasterYSize rasterfile,
                          rd_data_type = raster_datatype,
                          rd_local_roi = local_roi,
                          rd_target_roi = target_roi,
                          rd_file_path = raster_path,
                          rd_reproj_path = reproj_path\<rparr>))"

fun parse_rasters_loop ::
  "('g, 'srs) osr \<Rightarrow> 'g shapely \<Rightarrow> gdal \<Rightarrow> 'srs option \<Rightarrow> bool \<Rightarrow> string list
     \<Rightarrow> ('g, 'srs) raster_data list \<Rightarrow> string list
     \<Rightarrow> string list \<times> (exn + ('g, 'srs) raster_data list)" where
  "parse_rasters_loop osr sh gd srs_target reproj [] rasters_data written =
     (written, Inr rasters_data)"
| "parse_rasters_loop osr sh gd srs_target reproj (raster_path # rest) rasters_data written =
     (case parse_raster osr sh gd srs_target reproj written raster_path of
        (written', Inl err) \<Rightarrow> (written', Inl err)
      | (written', Inr entry) \<Rightarrow>
          parse_rasters_loop osr sh gd srs_target reproj rest (rasters_data @ [entry]) written')"

text \<open>
  \<^verbatim>\<open>parse_rasters\<close>: the result is the list of the files written by \<^verbatim>\<open>gdal.Warp\<close>,
  and the exception raised or the pair \<open>(rasters_data, target_coverage)\<close>.
\<close>

definition parse_rasters ::
  "builtins \<Rightarrow> ('g, 'srs) osr \<Rightarrow> 'g shapely \<Rightarrow> gdal \<Rightarrow> string list \<Rightarrow> 'srs srs_spec option
     \<Rightarrow> bool \<Rightarrow> string list \<times> (exn + (('g, 'srs) raster_data list \<times> 'g))" where
  "parse_rasters py osr sh gd raster_paths0 srs_target0 reproj =
     (let raster_paths = filter (\<lambda>r. \<not> str_endswith r ''.reproj.tif'') raster_paths0
      in case resolve_srs_target py osr srs_target0 of
           Inl err \<Rightarrow> ([], Inl err)
         | Inr srs_target \<Rightarrow>
             (case parse_rasters_loop osr sh gd srs_target reproj raster_paths [] [] of
                (written, Inl err) \<Rightarrow> (written, Inl err)
              | (written, Inr rasters_data) \<Rightarrow>
                  (written,
                   Inr (rasters_data, cascaded_union sh (map rd_target_roi rasters_data)))))"

section \<open>Vector features (\<^verbatim>\<open>parse_geojson\<close>)\<close>

text \<open>
  The coordinates handed to \<^verbatim>\<open>shapely.geometry.Polygon\<close>: each vertex is a list of two
  numbers; anything else is rejected by the constructor.
\<close>

fun to_float :: "'g pyval \<Rightarrow> exn + real" where
  "to_float (PInt n) = Inr (of_int n)"
| "to_float (PFloat r) = Inr r"
| "to_float (PBool b) = Inr (of_bool b)"
| "to_float _ = Inl TypeError"

fun point_of :: "'g pyval \<Rightarrow> exn + point" where
  "point_of (PList [a, b]) = ebind (to_float a) (\<lambda>x. ebind (to_float b) (\<lambda>y. Inr (x, y)))"
| "point_of _ = Inl TypeError"

fun points_of :: "'g pyval list \<Rightarrow> exn + point list" where
  "points_of [] = Inr []"
| "points_of (c # cs) = ebind (point_of c) (\<lambda>p. ebind (points_of cs) (\<lambda>ps. Inr (p # ps)))"

text \<open>
  Lines 211 and 212, on \<^verbatim>\<open>coords[0]\<close>:
  \<^verbatim>\<open>all([isinstance(c, list) and len(c) == 2 for c in coords[0]]) and len(coords[0]) >= 4\<close>.
  The elements of a string or of a dictionary are strings, so the assertion fails for
  them; an object that is not iterable raises \<open>TypeError\<close>.
\<close>

fun is_pair :: "'g pyval \<Rightarrow> bool" where
  "is_pair (PList [a, b]) = True"
| "is_pair _ = False"

fun check_ring :: "'g pyval \<Rightarrow> exn + 'g pyval list" where
  "check_ring (PList ring) =
     (if list_all is_pair ring \<and> 4 \<le> length ring then Inr ring
      else Inl (AssertionError ''unexpected poly coord format''))"
| "check_ring (PStr s) = Inl (AssertionError ''unexpected poly coord format'')"
| "check_ring (PDict d) = Inl (AssertionError ''unexpected poly coord format'')"
| "check_ring _ = Inl TypeError"

text \<open>
  Lines 205 to 228: the geometry of a raw feature is parsed, reprojected when there is
  a transformation, and stored into the feature together with its type. The result is
  the geometry and the feature after the two assignments; nothing is assigned when an
  exception is raised.
\<close>

definition parse_feature ::
  "'g shapely \<Rightarrow> ('g \<Rightarrow> 'g) option \<Rightarrow> 'g pyval \<Rightarrow> exn + ('g \<times> 'g pyval)" where
  "parse_feature sh srs_transform feature =
     ebind (py_getitem feature ''geometry'') (\<lambda>geometry.
     ebind (py_getitem geometry ''type'') (\<lambda>gtype.
       if \<not> (gtype = PStr ''Polygon'' \<or> gtype = PStr ''MultiPolygon'')
       then Inl (AssertionError ''unhandled raw geometry type'')
       else if gtype = PStr ''Polygon'' then
         ebind (py_getitem geometry ''coordinates'') (\<lambda>coords.
           case coords of
             PList cs \<Rightarrow>
               if length cs \<noteq> 1
               then Inl (AssertionError
                 ''unexpected coords embedding; should be list-of-list-of-points w/ unique ring'')
               else
                 ebind (check_ring (cs ! 0)) (\<lambda>ring.
                 ebind (points_of ring) (\<lambda>pts.
                   let poly0 = polygon sh pts;
                       poly = (case srs_transform of None \<Rightarrow> poly0 | Some t \<Rightarrow> t poly0)
                   in Inr (poly,
                           py_setitem (py_setitem feature ''geometry'' (PGeom poly))
                             ''type'' (PStr ''Polygon''))))
           | _ \<Rightarrow> Inl (AssertionError ''unexpected poly coords type''))
       else
         ebind (shape sh geometry) (\<lambda>multipoly0.
           if \<not> is_valid sh multipoly0
           then Inl (AssertionError ''found invalid input multipolygon in geojson'')
           else
             let multipoly = (case srs_transform of None \<Rightarrow> multipoly0 | Some t \<Rightarrow> t multipoly0)
             in Inr (multipoly,
                     py_setitem (py_setitem feature ''geometry'' (PGeom multipoly))
                       ''type'' (PStr ''MultiPolygon'')))))"

text \<open>The test of lines 232 and 233.\<close>

definition roi_keeps :: "'g shapely \<Rightarrow> 'g \<Rightarrow> bool \<Rightarrow> 'g \<Rightarrow> bool" where
  "roi_keeps sh roi allow_outlying geom \<longleftrightarrow>
     (allow_outlying \<and> intersects sh roi geom) \<or> (\<not> allow_outlying \<and> contains sh roi geom)"

text \<open>The test of line 236 on the type of the clipped geometry.\<close>

definition polygonal :: "'g shapely \<Rightarrow> 'g \<Rightarrow> bool" where
  "polygonal sh g \<longleftrightarrow> geom_type sh g = ''Polygon'' \<or> geom_type sh g = ''MultiPolygon''"

text \<open>
  Lines 229 to 239, for a feature whose \<open>geometry\<close> entry holds \<open>geom\<close>: the feature
  after the assignments, and the exception raised or whether the feature is appended to
  \<open>kept_features\<close>. The clipped geometry is assigned before its type is asserted.
\<close>

definition roi_filter ::
  "'g shapely \<Rightarrow> 'g option \<Rightarrow> bool \<Rightarrow> bool \<Rightarrow> 'g \<Rightarrow> 'g pyval \<Rightarrow> 'g pyval \<times> (exn + bool)" where
  "roi_filter sh roi allow_outlying clip_outlying geom feature =
     (case roi of
        None \<Rightarrow> (feature, Inr True)
      | Some r \<Rightarrow>
          if roi_keeps sh r allow_outlying geom then
            if clip_outlying then
              let clipped = intersection sh r geom;
                  feature' = py_setitem feature ''geometry'' (PGeom clipped)
              in if \<not> polygonal sh clipped
                 then (feature', Inl (AssertionError ''unhandled intersection geometry type''))
                 else (py_setitem feature' ''type'' (PStr (geom_type sh clipped)), Inr True)
            else (py_setitem feature ''type'' (PStr (geom_type sh geom)), Inr True)
          else (feature, Inr False))"

definition process_feature ::
  "'g shapely \<Rightarrow> ('g \<Rightarrow> 'g) option \<Rightarrow> 'g option \<Rightarrow> bool \<Rightarrow> bool \<Rightarrow> 'g pyval
     \<Rightarrow> 'g pyval \<times> (exn + bool)" where
  "process_feature sh srs_transform roi allow_outlying clip_outlying feature =
     (case parse_feature sh srs_transform feature of
        Inl err \<Rightarrow> (feature, Inl err)
      | Inr (geom, feature') \<Rightarrow> roi_filter sh roi allow_outlying clip_outlying geom feature')"

text \<open>
  The loop of line 204 over the list \<open>features\<close>, whose elements are mutated in place:
  the result is the list after the loop, and the exception raised or \<open>kept_features\<close>.
  The elements of the list are distinct objects, as in a decoded JSON document, and an
  element of \<open>kept_features\<close> is the feature in its state after the loop.
\<close>

fun parse_features ::
  "'g shapely \<Rightarrow> ('g \<Rightarrow> 'g) option \<Rightarrow> 'g option \<Rightarrow> bool \<Rightarrow> bool \<Rightarrow> 'g pyval list
     \<Rightarrow> 'g pyval list \<Rightarrow> 'g pyval list \<times> (exn + 'g pyval list)" where
  "parse_features sh srs_transform roi allow_outlying clip_outlying [] kept_features =
     ([], Inr kept_features)"
| "parse_features sh srs_transform roi allow_outlying clip_outlying (feature # rest) kept_features =
     (case process_feature sh srs_transform roi allow_outlying clip_outlying feature of
        (feature', Inl err) \<Rightarrow> (feature' # rest, Inl err)
      | (feature', Inr keep) \<Rightarrow>
          (case parse_features sh srs_transform roi allow_outlying clip_outlying rest
                  (if keep then kept_features @ [feature'] else kept_features) of
             (rest', res) \<Rightarrow> (feature' # rest', res)))"

text \<open>Lines 190 to 202: the transformation from the declared to the target system.\<close>

definition make_srs_transform ::
  "builtins \<Rightarrow> ('g, 'srs) osr \<Rightarrow> 'g pyval \<Rightarrow> 'srs srs_spec option \<Rightarrow> exn + ('g \<Rightarrow> 'g) option" where
  "make_srs_transform py osr geojson srs_target0 =
     ebind (parse_coordinate_system py osr geojson) (\<lambda>srs_origin.
     ebind (resolve_srs_target py osr srs_target0) (\<lambda>srs_target.
       Inr (case srs_target of
              None \<Rightarrow> None
            | Some tgt \<Rightarrow>
                if \<not> is_same osr srs_origin tgt then Some (transform_geom osr srs_origin tgt)
                else None)))"

text \<open>
  \<^verbatim>\<open>parse_geojson\<close>: the result is the state of the object \<open>geojson\<close> after the call,
  and the exception raised or the list \<open>kept_features\<close>.
\<close>

definition parse_geojson ::
  "builtins \<Rightarrow> ('g, 'srs) osr \<Rightarrow> 'g shapely \<Rightarrow> 'g pyval \<Rightarrow> 'srs srs_spec option \<Rightarrow> 'g option
     \<Rightarrow> bool \<Rightarrow> bool \<Rightarrow> 'g pyval \<times> (exn + 'g pyval list)" where
  "parse_geojson py osr sh geojson srs_target roi allow_outlying clip_outlying =
     (case geojson of
        PDict d \<Rightarrow>
          (case map_of d ''features'' of
             Some (PList features) \<Rightarrow>
               (case make_srs_transform py osr geojson srs_target of
                  Inl err \<Rightarrow> (geojson, Inl err)
                | Inr srs_transform \<Rightarrow>
                    (case parse_features sh srs_transform roi allow_outlying clip_outlying
                            features [] of
                       (features', res) \<Rightarrow> (py_setitem geojson ''features'' (PList features'), res)))
           | _ \<Rightarrow> (geojson, Inl (AssertionError ''unexpected geojson format'')))
      | _ \<Rightarrow> (geojson, Inl (AssertionError ''unexpected geojson type (must be dict)'')))"

section \<open>A concrete collaborator: axis-aligned rectangles\<close>

text \<open>
  An instance of the geometry operations, used to run the definitions on concrete
  inputs: a geometry is a closed axis-aligned rectangle \<open>(minx, miny, maxx, maxy)\<close>,
  possibly degenerate (a segment or a point) or empty (\<open>minx > maxx\<close> or
  \<open>miny > maxy\<close>). A ring is represented by its bounding rectangle, which is exact
  for the rectangular rings used below.
\<close>

type_synonym rect = "real \<times> real \<times> real \<times> real"

definition rect_of_ring :: "point list \<Rightarrow> rect" where
  "rect_of_ring ps =
     (case ps of
        [] \<Rightarrow> (1, 1, 0, 0)
      | p # qs \<Rightarrow> (fold min (map fst qs) (fst p), fold min (map snd qs) (snd p),
                  fold max (map fst qs) (fst p), fold max (map snd qs) (snd p)))"

definition rect_type :: "rect \<Rightarrow> string" where
  "rect_type g =
     (case g of (x0, y0, x1, y1) \<Rightarrow>
        if x0 < x1 \<and> y0 < y1 then ''Polygon''
        else if x0 = x1 \<and> y0 = y1 then ''Point''
        else if x0 \<le> x1 \<and> y0 \<le> y1 then ''LineString''
        else ''GeometryCollection'')"

definition rect_intersection :: "rect \<Rightarrow> rect \<Rightarrow> rect" where
  "rect_intersection a b =
     (case (a, b) of ((ax0, ay0, ax1, ay1), (bx0, by0, bx1, by1)) \<Rightarrow>
        (max ax0 bx0, max ay0 by0, min ax1 bx1, min ay1 by1))"

definition rect_intersects :: "rect \<Rightarrow> rect \<Rightarrow> bool" where
  "rect_intersects a b =
     (case rect_intersection a b of (x0, y0, x1, y1) \<Rightarrow> x0 \<le> x1 \<and> y0 \<le> y1)"

definition rect_contains :: "rect \<Rightarrow> rect \<Rightarrow> bool" where
  "rect_contains a b =
     (case (a, b) of ((ax0, ay0, ax1, ay1), (bx0, by0, bx1, by1)) \<Rightarrow>
        bx0 \<le> bx1 \<and> by0 \<le> by1 \<and> ax0 \<le> bx0 \<and> ay0 \<le> by0 \<and> bx1 \<le> ax1 \<and> by1 \<le> ay1)"

fun rings_points :: "rect pyval list \<Rightarrow> exn + point list" where
  "rings_points [] = Inr []"
| "rings_points (PList (PList ring # holes) # rest) =
     ebind (points_of ring) (\<lambda>ps. ebind (rings_points rest) (\<lambda>qs. Inr (ps @ qs)))"
| "rings_points (_ # rest) = Inl ValueError"

definition rect_shape :: "rect pyval \<Rightarrow> exn + rect" where
  "rect_shape obj =
     (case py_getitem obj ''coordinates'' of
        Inr (PList polys) \<Rightarrow> ebind (rings_points polys) (\<lambda>ps. Inr (rect_of_ring ps))
      | _ \<Rightarrow> Inl ValueError)"

definition rect_hull :: "rect list \<Rightarrow> rect" where
  "rect_hull gs =
     (case gs of
        [] \<Rightarrow> (1, 1, 0, 0)
      | g # rest \<Rightarrow>
          fold (\<lambda>(ax0, ay0, ax1, ay1) (bx0, by0, bx1, by1).
                  (min ax0 bx0, min ay0 by0, max ax1 bx1, max ay1 by1)) rest g)"

definition rect_shapely :: "rect shapely" where
  "rect_shapely =
     \<lparr>bounds = (\<lambda>g. g),
      centroid = (\<lambda>(x0, y0, x1, y1). ((x0 + x1) / 2, (y0 + y1) / 2)),
      buffer = (\<lambda>(x0, y0, x1, y1) d. (x0 - d, y0 - d, x1 + d, y1 + d)),
      polygon = rect_of_ring,
      geom_type = rect_type,
      is_valid = (\<lambda>_. True),
      intersects = rect_intersects,
      contains = rect_contains,
      intersection = rect_intersection,
      shape = rect_shape,
      cascaded_union = rect_hull\<rparr>"

text \<open>
  Builtins for ASCII strings: \<open>upper\<close> maps \<open>a\<close> to \<open>z\<close> to \<open>A\<close> to \<open>Z\<close>, and
  \<open>int\<close> reads a plain decimal literal with an optional minus sign.
\<close>

fun ascii_upper_char :: "char \<Rightarrow> char" where
  "ascii_upper_char (Char b0 b1 b2 b3 b4 b5 b6 b7) =
     (if (97::nat) \<le> of_char (Char b0 b1 b2 b3 b4 b5 b6 b7)
        \<and> of_char (Char b0 b1 b2 b3 b4 b5 b6 b7) \<le> (122::nat)
      then Char b0 b1 b2 b3 b4 False b6 b7
      else Char b0 b1 b2 b3 b4 b5 b6 b7)"

definition ascii_upper :: "string \<Rightarrow> string" where
  "ascii_upper s = map ascii_upper_char s"

fun nat_of_digits :: "string \<Rightarrow> nat \<Rightarrow> nat option" where
  "nat_of_digits [] acc = Some acc"
| "nat_of_digits (c # cs) acc =
     (if (48::nat) \<le> of_char c \<and> of_char c \<le> (57::nat)
      then nat_of_digits cs (10 * acc + (of_char c - 48))
      else None)"

definition decimal_of_str :: "string \<Rightarrow> int option" where
  "decimal_of_str s =
     (case s of
        [] \<Rightarrow> None
      | c # cs \<Rightarrow>
          if c = CHR ''-''
          then (if cs = [] then None else map_option (\<lambda>n. - int n) (nat_of_digits cs 0))
          else map_option int (nat_of_digits s 0))"

definition ascii_builtins :: builtins where
  "ascii_builtins = \<lparr>str_upper = ascii_upper, int_of_str = decimal_of_str\<rparr>"

text \<open>
  A stand-in for the reference systems: a system is its EPSG code (0 when undefined),
  only the EPSG importers know a code, a projection string ends with the code, and the
  transformation from one system to another shifts the abscissas by the difference of
  the codes.
\<close>

definition rect_osr :: "(rect, int) osr" where
  "rect_osr =
     \<lparr>new_srs = 0,
      import_from = (\<lambda>kind args.
         case args of
           [PInt n] \<Rightarrow> if (kind = EPSG \<or> kind = EPSGA) \<and> 0 < n then Inr (0, n) else Inr (7, 0)
         | _ \<Rightarrow> Inl TypeError),
      import_from_wkt = (\<lambda>wkt.
         case decimal_of_str (last (str_split CHR '':'' wkt)) of None \<Rightarrow> 0 | Some n \<Rightarrow> n),
      is_same = (\<lambda>a b. a = b),
      transform_geom = (\<lambda>src tgt (x0, y0, x1, y1).
         (x0 + of_int (tgt - src), y0, x1 + of_int (tgt - src), y1))\<rparr>"

text \<open>A file system with one raster of 100 by 100 pixels, with the given bands.\<close>

definition one_raster :: "string \<Rightarrow> int option list \<Rightarrow> gdal" where
  "one_raster path band_types =
     \<lparr>gdal_open = (\<lambda>p.
         if p = path
         then Some \<lparr>GetGeoTransform = (500000, 10, 0, 4000000, 0, - 10),
                     RasterXSize = 100, RasterYSize = 100,
                     GetProjectionRef = ''EPSG:26918'',
                     bands = band_types\<rparr>
         else None),
      path_exists = (\<lambda>p. False)\<rparr>"

text \<open>A feature collection in EPSG 4326, square polygons, and features after parsing.\<close>

definition square_ring :: "int \<Rightarrow> int \<Rightarrow> int \<Rightarrow> int \<Rightarrow> rect pyval" where
  "square_ring x0 y0 x1 y1 =
     PList [PList [PInt x0, PInt y0], PList [PInt x1, PInt y0], PList [PInt x1, PInt y1],
            PList [PInt x0, PInt y1], PList [PInt x0, PInt y0]]"

definition polygon_feature :: "string \<Rightarrow> rect pyval \<Rightarrow> rect pyval" where
  "polygon_feature name ring =
     PDict [(''type'', PStr ''Feature''),
            (''properties'', PDict [(''name'', PStr name)]),
            (''geometry'', PDict [(''type'', PStr ''Polygon''), (''coordinates'', PList [ring])])]"

definition parsed_feature :: "string \<Rightarrow> string \<Rightarrow> rect \<Rightarrow> rect pyval" where
  "parsed_feature name kind g =
     PDict [(''type'', PStr kind),
            (''properties'', PDict [(''name'', PStr name)]),
            (''geometry'', PGeom g)]"

definition collection_entries :: "rect pyval list \<Rightarrow> (string \<times> rect pyval) list" where
  "collection_entries fs =
     [(''type'', PStr ''FeatureCollection''),
      (''crs'', PDict [(''type'', PStr ''EPSG''),
                       (''properties'', PDict [(''code'', PInt 4326)])]),
      (''features'', PList fs)]"

definition feature_collection :: "rect pyval list \<Rightarrow> rect pyval" where
  "feature_collection fs = PDict (collection_entries fs)"

section \<open>Properties of the affine transform\<close>

lemma get_geocoord_eq:
  "get_geocoord (ox, rx, sx, oy, sy, ry) x y = (x * rx + y * sx + ox, x * sy + y * ry + oy)"
  by (simp add: get_geocoord_def)

lemma get_pxcoord_degenerate:
  "rx * ry - sx * sy = 0 \<Longrightarrow>
   get_pxcoord (ox, rx, sx, oy, sy, ry) x y = Inl TransformNotInvertibleError"
  by (simp add: get_pxcoord_def invert_def is_degenerate_def determinant_def)

lemma get_pxcoord_eq:
  assumes "rx * ry - sx * sy \<noteq> 0"
  shows "get_pxcoord (ox, rx, sx, oy, sy, ry) x y =
           Inr (((x - ox) * ry - (y - oy) * sx) / (rx * ry - sx * sy),
                ((y - oy) * rx - (x - ox) * sy) / (rx * ry - sx * sy))"
proof -
  define D where "D = rx * ry - sx * sy"
  have D: "D \<noteq> 0" using assms by (simp add: D_def)
  have 1: "x * (ry * (1 / D)) + y * (- sx * (1 / D)) + (- ox * (ry * (1 / D)) - oy * (- sx * (1 / D)))
         = ((x - ox) * ry - (y - oy) * sx) / D"
    using D by (simp add: field_simps)
  have 2: "x * (- sy * (1 / D)) + y * (rx * (1 / D)) + (- ox * (- sy * (1 / D)) - oy * (rx * (1 / D)))
         = ((y - oy) * rx - (x - ox) * sy) / D"
    using D by (simp add: field_simps)
  have "get_pxcoord (ox, rx, sx, oy, sy, ry) x y =
     Inr (x * (ry * (1 / D)) + y * (- sx * (1 / D)) + (- ox * (ry * (1 / D)) - oy * (- sx * (1 / D))),
          x * (- sy * (1 / D)) + y * (rx * (1 / D)) + (- ox * (- sy * (1 / D)) - oy * (rx * (1 / D))))"
    using D unfolding D_def
    by (simp add: get_pxcoord_def invert_def is_degenerate_def determinant_def Let_def)
  then show ?thesis unfolding 1 2 by (simp add: D_def)
qed

text \<open>
  Claim C2, as amended. The claim takes nonzero resolutions \<open>res_x\<close>, \<open>res_y\<close> for
  invertibility; the inverse exists exactly when the determinant
  \<open>res_x * res_y - skew_x * skew_y\<close> is nonzero. For every geotransform with a nonzero
  determinant and every pixel coordinate \<open>(c, r)\<close>, \<^verbatim>\<open>get_geocoord\<close> followed by
  \<^verbatim>\<open>get_pxcoord\<close> returns \<open>(c, r)\<close>, over exact arithmetic.
\<close>

theorem pxcoord_of_geocoord:
  assumes "rx * ry - sx * sy \<noteq> 0"
  shows "(case get_geocoord (ox, rx, sx, oy, sy, ry) c r of
            (x, y) \<Rightarrow> get_pxcoord (ox, rx, sx, oy, sy, ry) x y) = Inr (c, r)"
proof -
  define D where "D = rx * ry - sx * sy"
  have D: "D \<noteq> 0" using assms by (simp add: D_def)
  have 1: "((c * rx + r * sx + ox - ox) * ry - (c * sy + r * ry + oy - oy) * sx) = c * D"
    by (simp add: D_def algebra_simps)
  have 2: "((c * sy + r * ry + oy - oy) * rx - (c * rx + r * sx + ox - ox) * sy) = r * D"
    by (simp add: D_def algebra_simps)
  show ?thesis
    unfolding get_geocoord_eq prod.case get_pxcoord_eq [OF assms] 1 2
    using D by (simp add: D_def)
qed

theorem pxcoord_of_geocoord_witness:
  "(10::real) * (- 10) - 0 * 0 \<noteq> 0 \<and>
   (case get_geocoord (500000, 10, 0, 4000000, 0, - 10) 3 7 of
      (x, y) \<Rightarrow> get_pxcoord (500000, 10, 0, 4000000, 0, - 10) x y) = Inr (3, 7)"
  using pxcoord_of_geocoord [of 10 "- 10" 0 0 500000 4000000 3 7] by simp

text \<open>
  Claim C2 as stated fails: the geotransform \<open>(0, 1, 1, 0, 1, 1)\<close> has resolutions
  \<open>res_x = res_y = 1\<close>, both nonzero, and determinant \<open>1 * 1 - 1 * 1 = 0\<close>;
  \<^verbatim>\<open>get_pxcoord\<close> raises instead of returning the pixel \<open>(3, 7)\<close>.
\<close>

theorem pxcoord_of_geocoord_counterexample:
  "(1::real) \<noteq> 0 \<and> (1::real) \<noteq> 0 \<and>
   (case get_geocoord (0, 1, 1, 0, 1, 1) 3 7 of
      (x, y) \<Rightarrow> get_pxcoord (0, 1, 1, 0, 1, 1) x y) = Inl TransformNotInvertibleError \<and>
   (case get_geocoord (0, 1, 1, 0, 1, 1) 3 7 of
      (x, y) \<Rightarrow> get_pxcoord (0, 1, 1, 0, 1, 1) x y) \<noteq> Inr (3, 7)"
  by (simp add: get_geocoord_def get_pxcoord_def invert_def is_degenerate_def determinant_def)

text \<open>
  Claim C3. \<^verbatim>\<open>get_geoextent\<close> returns the images under the forward affine map of the
  pixel corners \<open>(col, row)\<close>, \<open>(col, row + height)\<close>, \<open>(col + width, row + height)\<close>,
  \<open>(col + width, row)\<close>, in the order top left, bottom left, bottom right, top right;
  the forward map is \<open>(ox + c * rx + r * sx, oy + c * sy + r * ry)\<close>. For the
  geotransform \<open>(500000, 10, 0, 4000000, 0, -10)\<close>, pixel \<open>(0, 0)\<close> maps to
  \<open>(500000, 4000000)\<close>, pixel \<open>(100, 100)\<close> to \<open>(501000, 3999000)\<close>, and the extent of
  the 100 by 100 window at the origin is the list of the claim.
\<close>

theorem get_geoextent_corners:
  "get_geoextent gt col row width height =
     [get_geocoord gt col row, get_geocoord gt col (row + height),
      get_geocoord gt (col + width) (row + height), get_geocoord gt (col + width) row]
   \<and> get_geocoord (ox, rx, sx, oy, sy, ry) c r = (ox + c * rx + r * sx, oy + c * sy + r * ry)
   \<and> get_geocoord (500000, 10, 0, 4000000, 0, - 10) 0 0 = (500000, 4000000)
   \<and> get_geocoord (500000, 10, 0, 4000000, 0, - 10) 100 100 = (501000, 3999000)
   \<and> get_geoextent (500000, 10, 0, 4000000, 0, - 10) 0 0 100 100 =
       [(500000, 4000000), (500000, 3999000), (501000, 3999000), (501000, 4000000)]"
  by (simp add: get_geoextent_def get_geocoord_def)

section \<open>Properties of the bounding box\<close>

lemma get_feature_bbox_none:
  "get_feature_bbox sh geom None =
     (case bounds sh geom of (b0, b1, b2, b3) \<Rightarrow>
        Inr ((min b0 b2, min b1 b3), (max b0 b2, max b1 b3)))"
  by (simp add: get_feature_bbox_def split: prod.splits) (simp add: min.commute max.commute)

lemma get_feature_bbox_empty:
  "get_feature_bbox sh geom (Some []) = get_feature_bbox sh geom None"
  by (simp add: get_feature_bbox_def)

lemma get_feature_bbox_pair:
  "get_feature_bbox sh geom (Some [dx, dy]) =
     (case centroid sh geom of (cx, cy) \<Rightarrow>
        Inr ((cx - \<bar>dx\<bar>, cy - \<bar>dy\<bar>), (cx + \<bar>dx\<bar>, cy + \<bar>dy\<bar>)))"
  by (simp add: get_feature_bbox_def split: prod.splits) (auto simp: min_def max_def abs_if)

lemma get_feature_bbox_bad:
  "xs \<noteq> [] \<Longrightarrow> length xs \<noteq> 2 \<Longrightarrow>
   get_feature_bbox sh geom (Some xs) = Inl (AssertionError ''offset param must be 2d'')"
  by (simp add: get_feature_bbox_def)

text \<open>
  Claim C8, as amended. \<^verbatim>\<open>get_feature_bbox\<close> fails with the assertion error
  "offset param must be 2d" for every offsets argument that is non-empty and whose length
  is not 2. With offsets \<open>[dx, dy]\<close> it returns the corners of the box of half-widths
  \<open>(|dx|, |dy|)\<close> centred on the centroid of the geometry. With no offsets it returns the
  corners \<open>(min, min)\<close> and \<open>(max, max)\<close> of the geometry's bounds, which are the bounds
  themselves when they are ordered. Empty offsets are not rejected: they are treated as
  absent.
\<close>

theorem get_feature_bbox_offsets:
  "(xs \<noteq> [] \<and> length xs \<noteq> 2 \<longrightarrow>
      get_feature_bbox sh geom (Some xs) = Inl (AssertionError ''offset param must be 2d''))
   \<and> get_feature_bbox sh geom (Some [dx, dy]) =
       Inr ((fst (centroid sh geom) - \<bar>dx\<bar>, snd (centroid sh geom) - \<bar>dy\<bar>),
            (fst (centroid sh geom) + \<bar>dx\<bar>, snd (centroid sh geom) + \<bar>dy\<bar>))
   \<and> (bounds sh geom = (b0, b1, b2, b3) \<longrightarrow>
        get_feature_bbox sh geom None = Inr ((min b0 b2, min b1 b3), (max b0 b2, max b1 b3))
        \<and> get_feature_bbox sh geom (Some []) = get_feature_bbox sh geom None
        \<and> (b0 \<le> b2 \<and> b1 \<le> b3 \<longrightarrow> get_feature_bbox sh geom None = Inr ((b0, b1), (b2, b3))))"
  by (auto simp: get_feature_bbox_bad get_feature_bbox_pair get_feature_bbox_none
      get_feature_bbox_empty split: prod.splits)

theorem get_feature_bbox_offsets_witness:
  "([1, 2, 3::real] \<noteq> [] \<and> length [1, 2, 3::real] \<noteq> 2) \<and>
   get_feature_bbox rect_shapely (0, 0, 4, 2) (Some [1, 2, 3]) =
     Inl (AssertionError ''offset param must be 2d'') \<and>
   get_feature_bbox rect_shapely (0, 0, 4, 2) (Some [5, - 3]) = Inr ((- 3, - 2), (7, 4)) \<and>
   bounds rect_shapely (0, 0, 4, 2) = (0, 0, 4, 2) \<and> (0::real) \<le> 4 \<and> (0::real) \<le> 2 \<and>
   get_feature_bbox rect_shapely (0, 0, 4, 2) None = Inr ((0, 0), (4, 2)) \<and>
   get_feature_bbox rect_shapely (0, 0, 4, 2) (Some []) = Inr ((0, 0), (4, 2))"
  using get_feature_bbox_offsets [of "[1, 2, 3]" rect_shapely "(0, 0, 4, 2)" 5 "- 3" 0 0 4 2]
  by (simp add: rect_shapely_def)

text \<open>
  Claim C8 as stated fails for offsets of length 0: the empty sequence is false in the
  guard \<^verbatim>\<open>if offsets and len(offsets) != 2\<close>, and the bounding box is returned.
\<close>

theorem get_feature_bbox_offsets_counterexample:
  "length ([]::real list) \<noteq> 2 \<and>
   get_feature_bbox rect_shapely (0, 0, 4, 2) (Some []) = Inr ((0, 0), (4, 2))"
  by (simp add: get_feature_bbox_def rect_shapely_def)

text \<open>
  Claim C9. Whenever \<^verbatim>\<open>get_feature_bbox\<close> returns a pair of points, the first is
  componentwise less than or equal to the second, whatever the bounds, the centroid and
  the signs of the offsets.
\<close>

theorem get_feature_bbox_sorted:
  assumes "get_feature_bbox sh geom offsets = Inr (p, q)"
  shows "fst p \<le> fst q \<and> snd p \<le> snd q"
  using assms
  by (auto simp: get_feature_bbox_def Let_def split: if_splits prod.splits)

theorem get_feature_bbox_sorted_witness:
  "get_feature_bbox rect_shapely (0, 0, 4, 2) (Some [- 5, 3]) = Inr ((- 3, - 2), (7, 4)) \<and>
   fst (- 3 :: real, - 2 :: real) \<le> fst (7 :: real, 4 :: real) \<and>
   snd (- 3 :: real, - 2 :: real) \<le> snd (7 :: real, 4 :: real)"
proof -
  have h: "get_feature_bbox rect_shapely (0, 0, 4, 2) (Some [- 5, 3]) = Inr ((- 3, - 2), (7, 4))"
    by (simp add: get_feature_bbox_def rect_shapely_def)
  show ?thesis using h get_feature_bbox_sorted [OF h] by simp
qed





section \<open>Properties of the crop window\<close>













section \<open>Properties of the coordinate reference system parser\<close>

lemma ebind_Inl [simp]: "ebind (Inl e) f = Inl e"
  by (simp add: ebind_def)

lemma ebind_Inr [simp]: "ebind (Inr v) f = f v"
  by (simp add: ebind_def)

lemma name_branch_fails:
  assumes "\<not> (\<exists>opt. crs_opts = [PStr opt] \<and> str_contains '':EPSG:'' opt)"
    and "length crs_opts = 1"
  shows "\<exists>e. ebind
           (ebind (py_contains '':EPSG:'' (crs_opts ! 0)) (\<lambda>has_token.
              if has_token then
                ebind (int_of_last_field py (crs_opts ! 0)) (\<lambda>code.
                  import_from osr EPSG [PInt code])
              else Inr (- 1, new_srs osr)))
           (\<lambda>(err, crs).
              if err \<noteq> 0 then Inl (AssertionError ''could not identify CRS/SRS type'')
              else Inr crs) = Inl e"
proof -
  obtain x where x: "crs_opts = [x]"
    using assms(2) by (cases crs_opts) auto
  show ?thesis using assms(1) unfolding x by (cases x) auto
qed

lemma parse_crs_fails:
  assumes body: "crs_body_of body = Inr (PDict d)"
    and ty: "(map_of d ''type'' = None \<and> str_upper py [] = [])
             \<or> (\<exists>v. map_of d ''type'' = Some v \<and> (\<forall>s. v = PStr s \<longrightarrow> \<not> recognized_crs py d s))"
  shows "\<exists>e. parse_coordinate_system py osr body = Inl (e::exn)"
proof -
  let ?ty = "case map_of d ''type'' of None \<Rightarrow> PStr [] | Some v \<Rightarrow> v"
  show ?thesis
  proof (cases "py_upper py ?ty")
    case (Inl e)
    then show ?thesis using body by (simp add: parse_coordinate_system_def)
  next
    case (Inr crs_type)
    then obtain s where s: "?ty = PStr s" and ct: "crs_type = str_upper py s"
      by (cases ?ty) auto
    have nrec: "\<not> recognized_crs py d s"
      using ty s by (auto simp: recognized_crs_def split: option.splits)
    show ?thesis
    proof (cases "py_values (case map_of d ''properties'' of None \<Rightarrow> PNone | Some v \<Rightarrow> v)")
      case (Inl e)
      then show ?thesis using body Inr by (simp add: parse_coordinate_system_def)
    next
      case opts: (Inr crs_opts)
      then obtain p where p: "map_of d ''properties'' = Some (PDict p)" and co: "crs_opts = map snd p"
        by (cases "map_of d ''properties''"; cases "the (map_of d ''properties'')") auto
      have six: "crs_type \<notin> {''EPSG'', ''EPSGA'', ''ERM'', ''ESRI'', ''USGS'', ''PCI''}"
        using nrec ct by (simp add: recognized_crs_def)
      show ?thesis
      proof (cases "crs_type = ''NAME'' \<and> length crs_opts = 1")
        case True
        have "\<not> (\<exists>opt. crs_opts = [PStr opt] \<and> str_contains '':EPSG:'' opt)"
          using nrec ct True p co by (auto simp: recognized_crs_def)
        from name_branch_fails [OF this, of py osr] True
        show ?thesis using body Inr opts six True
          by (simp add: parse_coordinate_system_def)
      next
        case False
        then show ?thesis using body Inr opts six
          by (auto simp: parse_coordinate_system_def)
      qed
    qed
  qed
qed


lemma parse_crs_assertion:
  assumes body: "crs_body_of body = Inr (PDict d)"
    and ty: "(map_of d ''type'' = None \<and> str_upper py [] = [])
             \<or> (\<exists>s. map_of d ''type'' = Some (PStr s) \<and> \<not> recognized_crs py d s)"
    and props: "map_of d ''properties'' = Some (PDict p)"
    and strs: "\<forall>v\<in>set (map snd p). \<exists>opt. v = PStr opt"
  shows "parse_coordinate_system py osr body =
           Inl (AssertionError ''could not identify CRS/SRS type'')"
proof -
  let ?ty = "case map_of d ''type'' of None \<Rightarrow> PStr [] | Some v \<Rightarrow> v"
  obtain s where s: "?ty = PStr s" and nrec: "\<not> recognized_crs py d s"
    using ty by (auto simp: recognized_crs_def)
  let ?ct = "str_upper py s"
  have six: "?ct \<notin> {''EPSG'', ''EPSGA'', ''ERM'', ''ESRI'', ''USGS'', ''PCI''}"
    using nrec by (simp add: recognized_crs_def)
  show ?thesis
  proof (cases "?ct = ''NAME'' \<and> length (map snd p) = 1")
    case True
    then obtain x where x: "map snd p = [x]"
      by (cases "map snd p") auto
    then obtain opt where opt: "x = PStr opt" using strs by auto
    have "\<not> str_contains '':EPSG:'' opt"
      using nrec True props x opt by (auto simp: recognized_crs_def)
    then show ?thesis using body s six True props x opt
      by (simp add: parse_coordinate_system_def)
  next
    case False
    then show ?thesis using body s six props
      by (auto simp: parse_coordinate_system_def)
  qed
qed

text \<open>
  Claim C6. Let the descriptor selected by \<^verbatim>\<open>body.get("crs") or body.get("srs")\<close> be a
  mapping. If its \<open>type\<close> entry is absent, or is not a string, or is a string that is
  not recognized (upper-cased, it is none of EPSG, EPSGA, ERM, ESRI, USGS, PCI, and it is
  not the NAME case with a single string property holding the token \<open>:EPSG:\<close>), then
  \<^verbatim>\<open>parse_coordinate_system\<close> raises and returns no reference system; when moreover
  the \<open>properties\<close> entry is a mapping to strings and the type is absent or a string,
  the exception is the assertion error "could not identify CRS/SRS type". The descriptor
  with type EPSG and the single property 4326 yields the imported system whenever the
  importer reports success, and a descriptor of type BOGUS fails.
\<close>

theorem parse_coordinate_system_unsupported:
  "(crs_body_of body = Inr (PDict d) \<and>
      ((map_of d ''type'' = None \<and> str_upper py [] = [])
        \<or> (\<exists>v. map_of d ''type'' = Some v \<and> (\<forall>s. v = PStr s \<longrightarrow> \<not> recognized_crs py d s)))
    \<longrightarrow> (\<exists>e. parse_coordinate_system py osr body = Inl e)
        \<and> (map_of d ''properties'' = Some (PDict p)
             \<and> (\<forall>v\<in>set (map snd p). \<exists>opt. v = PStr opt)
             \<and> (\<forall>v. map_of d ''type'' = Some v \<longrightarrow> (\<exists>s. v = PStr s))
           \<longrightarrow> parse_coordinate_system py osr body =
                 Inl (AssertionError ''could not identify CRS/SRS type'')))
   \<and> (str_upper py ''EPSG'' = ''EPSG'' \<and> import_from osr EPSG [PInt 4326] = Inr (0, srs)
       \<longrightarrow> parse_coordinate_system py osr
             (PDict [(''crs'', PDict [(''type'', PStr ''EPSG''),
                                      (''properties'', PDict [(''code'', PInt 4326)])])])
           = Inr srs)
   \<and> (str_upper py ''BOGUS'' = ''BOGUS''
       \<longrightarrow> (\<exists>e. parse_coordinate_system py osr
                  (PDict [(''crs'', PDict ((''type'', PStr ''BOGUS'') # rest))]) = Inl e))"
proof (intro conjI impI)
  assume h: "crs_body_of body = Inr (PDict d) \<and>
      ((map_of d ''type'' = None \<and> str_upper py [] = [])
        \<or> (\<exists>v. map_of d ''type'' = Some v \<and> (\<forall>s. v = PStr s \<longrightarrow> \<not> recognized_crs py d s)))"
  then show "\<exists>e. parse_coordinate_system py osr body = Inl e"
    using parse_crs_fails [of body d py osr] by blast
  assume "map_of d ''properties'' = Some (PDict p)
             \<and> (\<forall>v\<in>set (map snd p). \<exists>opt. v = PStr opt)
             \<and> (\<forall>v. map_of d ''type'' = Some v \<longrightarrow> (\<exists>s. v = PStr s))"
  with h show "parse_coordinate_system py osr body =
                 Inl (AssertionError ''could not identify CRS/SRS type'')"
    by (intro parse_crs_assertion [of body d py p osr]) auto
next
  assume "str_upper py ''EPSG'' = ''EPSG'' \<and> import_from osr EPSG [PInt 4326] = Inr (0, srs)"
  then show "parse_coordinate_system py osr
             (PDict [(''crs'', PDict [(''type'', PStr ''EPSG''),
                                      (''properties'', PDict [(''code'', PInt 4326)])])])
           = Inr srs"
    by (simp add: parse_coordinate_system_def crs_body_of_def)
next
  assume up: "str_upper py ''BOGUS'' = ''BOGUS''"
  let ?d = "(''type'', PStr ''BOGUS'') # rest"
  have "crs_body_of (PDict [(''crs'', PDict ?d)]) = Inr (PDict ?d)"
    by (simp add: crs_body_of_def)
  moreover have "\<not> recognized_crs py ?d ''BOGUS''"
    using up by (simp add: recognized_crs_def)
  ultimately show "\<exists>e. parse_coordinate_system py osr (PDict [(''crs'', PDict ?d)]) = Inl e"
    using parse_crs_fails [of "PDict [(''crs'', PDict ?d)]" ?d py osr] by auto
qed

theorem parse_coordinate_system_unsupported_witness:
  "crs_body_of (PDict [(''features'', PList []),
                       (''srs'', PDict [(''properties'', PDict [(''name'', PStr ''WGS84'')])])])
     = Inr (PDict [(''properties'', PDict [(''name'', PStr ''WGS84'')])] :: rect pyval)
   \<and> map_of [(''properties'', PDict [(''name'', PStr ''WGS84'')] :: rect pyval)] ''type'' = None
   \<and> str_upper ascii_builtins [] = []
   \<and> parse_coordinate_system ascii_builtins rect_osr
        (PDict [(''features'', PList []),
                (''srs'', PDict [(''properties'', PDict [(''name'', PStr ''WGS84'')])])])
       = Inl (AssertionError ''could not identify CRS/SRS type'')
   \<and> str_upper ascii_builtins ''EPSG'' = ''EPSG''
   \<and> import_from rect_osr EPSG [PInt 4326] = Inr (0, 4326)
   \<and> parse_coordinate_system ascii_builtins rect_osr
        (PDict [(''crs'', PDict [(''type'', PStr ''EPSG''),
                                 (''properties'', PDict [(''code'', PInt 4326)])])])
       = Inr 4326
   \<and> str_upper ascii_builtins ''BOGUS'' = ''BOGUS''
   \<and> parse_coordinate_system ascii_builtins rect_osr
        (PDict [(''crs'', PDict [(''type'', PStr ''BOGUS''),
                                 (''properties'', PDict [(''code'', PInt 4326)])])])
       = Inl (AssertionError ''could not identify CRS/SRS type'')"
proof -
  let ?d = "[(''properties'', PDict [(''name'', PStr ''WGS84'')])] :: (string \<times> rect pyval) list"
  let ?body = "PDict [(''features'', PList []), (''srs'', PDict ?d)] :: rect pyval"
  have h1: "crs_body_of ?body = Inr (PDict ?d)"
    by (simp add: crs_body_of_def)
  have h2: "map_of ?d ''type'' = None" by simp
  have h3: "str_upper ascii_builtins [] = []"
    by (simp add: ascii_builtins_def ascii_upper_def)
  have h4: "str_upper ascii_builtins ''EPSG'' = ''EPSG''"
    by (simp add: ascii_builtins_def ascii_upper_def)
  have h5: "import_from rect_osr EPSG [PInt 4326] = Inr (0, 4326)"
    by (simp add: rect_osr_def)
  have h6: "str_upper ascii_builtins ''BOGUS'' = ''BOGUS''"
    by (simp add: ascii_builtins_def ascii_upper_def)
  have h7: "map_of ?d ''properties'' = Some (PDict [(''name'', PStr ''WGS84'')])" by simp
  have h8: "\<forall>v\<in>set (map snd [(''name'', PStr ''WGS84'' :: rect pyval)]). \<exists>opt. v = PStr opt"
    by simp
  note inst = parse_coordinate_system_unsupported [where body = ?body and d = ?d
      and py = ascii_builtins and osr = rect_osr and srs = 4326
      and p = "[(''name'', PStr ''WGS84'')]"
      and rest = "[(''properties'', PDict [(''code'', PInt 4326)])]"]
  have h9: "parse_coordinate_system ascii_builtins rect_osr
        (PDict [(''crs'', PDict [(''type'', PStr ''BOGUS''),
                                 (''properties'', PDict [(''code'', PInt 4326)])])])
       = Inl (AssertionError ''could not identify CRS/SRS type'')"
    by (simp add: parse_coordinate_system_def crs_body_of_def ascii_builtins_def ascii_upper_def)
  from inst h1 h2 h3 h4 h5 h6 h7 h8 h9 show ?thesis by simp
qed

section \<open>Properties of the band validation\<close>

text \<open>
  When \<open>raster_datatype\<close> already holds a nonzero type, the loop succeeds exactly when
  every remaining band is valid and has that type.
\<close>

lemma check_bands_Some:
  assumes "t \<noteq> 0"
  shows "(\<exists>r. check_bands bs (Some t) = Inr r) \<longleftrightarrow> (\<forall>b\<in>set bs. b = Some t)"
  using assms by (induction bs) (auto split: option.splits)

text \<open>
  Bands of known types (every band valid, no type equal to \<open>GDT_Unknown = 0\<close>) pass
  the validation exactly when they all have the same type.
\<close>

lemma check_bands_known_types:
  assumes "\<forall>b\<in>set bs. \<exists>t. b = Some t \<and> t \<noteq> 0"
  shows "(\<exists>r. check_bands bs None = Inr r) \<longleftrightarrow> (\<forall>b\<in>set bs. \<forall>b'\<in>set bs. b = b')"
proof (cases bs)
  case Nil
  then show ?thesis by simp
next
  case (Cons b rest)
  then obtain t where t: "b = Some t" "t \<noteq> 0" using assms by auto
  have "check_bands bs None = check_bands rest (Some t)"
    using Cons t by simp
  moreover have "(\<forall>b\<in>set rest. b = Some t) \<longleftrightarrow> (\<forall>b\<in>set bs. \<forall>b'\<in>set bs. b = b')"
  proof
    assume a: "\<forall>b\<in>set rest. b = Some t"
    have "set bs \<subseteq> {Some t}" unfolding Cons t(1) using a by auto
    then show "\<forall>b\<in>set bs. \<forall>b'\<in>set bs. b = b'" by (metis singletonD subsetD)
  next
    assume a: "\<forall>b\<in>set bs. \<forall>b'\<in>set bs. b = b'"
    have "Some t \<in> set bs" unfolding Cons t(1) by simp
    with a have "\<forall>b'\<in>set bs. b' = Some t" by metis
    then show "\<forall>b\<in>set rest. b = Some t" unfolding Cons by simp
  qed
  ultimately show ?thesis
    using check_bands_Some [OF t(2), of rest] by simp
qed

text \<open>
  Claim C5 fails on the code. A raster whose first band has the type \<open>GDT_Unknown = 0\<close>
  and whose second band has the type \<open>GDT_Byte = 1\<close> has bands of two data types, and
  \<^verbatim>\<open>parse_rasters\<close> returns its record with data type 1: \<^verbatim>\<open>if not raster_datatype\<close> is
  true again at the second band, so the type is replaced before it is compared. With
  the same two bands in the other order the assertion fails, as the claim says.
\<close>

theorem parse_rasters_mixed_bands_accepted:
  "check_bands [Some 0, Some 1] None = Inr (Some 1)
   \<and> map_sum id (\<lambda>(rasters_data, coverage). (map rd_data_type rasters_data, coverage))
       (snd (parse_rasters ascii_builtins rect_osr rect_shapely
               (one_raster ''a.tif'' [Some 0, Some 1]) [''a.tif''] None False))
     = Inr ([Some 1], (500000, 3999000, 501000, 4000000))
   \<and> snd (parse_rasters ascii_builtins rect_osr rect_shapely
            (one_raster ''a.tif'' [Some 1, Some 0]) [''a.tif''] None False)
     = Inl (AssertionError ''expected identical data types in all bands'')"
  by (simp add: parse_rasters_def parse_raster_def one_raster_def str_endswith_def
      rect_osr_def rect_shapely_def decimal_of_str_def get_geoextent_def get_geocoord_def
      rect_of_ring_def rect_hull_def Let_def)

section \<open>Properties of the feature parser\<close>

lemma parse_features_Inr:
  assumes "parse_features sh tr roi allow clip fs kept = (fs', Inr res)"
  shows "fs' = map (\<lambda>f. fst (process_feature sh tr roi allow clip f)) fs
       \<and> res = kept @ map (\<lambda>f. fst (process_feature sh tr roi allow clip f))
                        (filter (\<lambda>f. snd (process_feature sh tr roi allow clip f) = Inr True) fs)
       \<and> (\<forall>f\<in>set fs. \<exists>b. snd (process_feature sh tr roi allow clip f) = Inr b)"
  using assms
proof (induction fs arbitrary: kept fs' res)
  case Nil
  then show ?case by simp
next
  case (Cons f fs)
  obtain f' r where pf: "process_feature sh tr roi allow clip f = (f', r)"
    by (cases "process_feature sh tr roi allow clip f")
  show ?case
  proof (cases r)
    case (Inl e)
    with Cons.prems pf show ?thesis by simp
  next
    case (Inr keep)
    obtain rest' res' where rec:
      "parse_features sh tr roi allow clip fs (if keep then kept @ [f'] else kept) = (rest', res')"
      by (cases "parse_features sh tr roi allow clip fs (if keep then kept @ [f'] else kept)")
    from Cons.prems pf Inr rec have eq: "fs' = f' # rest'" "res' = Inr res"
      by simp_all
    from Cons.IH [OF rec [unfolded eq(2)]] pf Inr eq(1)
    show ?thesis by auto
  qed
qed

lemma parse_features_returns:
  assumes "\<forall>f\<in>set fs. \<exists>b. snd (process_feature sh tr roi allow clip f) = Inr b"
  shows "parse_features sh tr roi allow clip fs kept =
           (map (\<lambda>f. fst (process_feature sh tr roi allow clip f)) fs,
            Inr (kept @ map (\<lambda>f. fst (process_feature sh tr roi allow clip f))
                        (filter (\<lambda>f. snd (process_feature sh tr roi allow clip f) = Inr True) fs)))"
  using assms
proof (induction fs arbitrary: kept)
  case Nil
  then show ?case by simp
next
  case (Cons f fs)
  obtain f' keep where pf: "process_feature sh tr roi allow clip f = (f', Inr keep)"
    using Cons.prems by (cases "process_feature sh tr roi allow clip f") auto
  have "\<forall>f\<in>set fs. \<exists>b. snd (process_feature sh tr roi allow clip f) = Inr b"
    using Cons.prems by simp
  from Cons.IH [OF this] pf show ?case by simp
qed

lemma roi_filter_Some:
  "roi_filter sh (Some r) allow clip g f1 =
     (if roi_keeps sh r allow g then
        if clip then
          if polygonal sh (intersection sh r g)
          then (py_setitem (py_setitem f1 ''geometry'' (PGeom (intersection sh r g)))
                  ''type'' (PStr (geom_type sh (intersection sh r g))), Inr True)
          else (py_setitem f1 ''geometry'' (PGeom (intersection sh r g)),
                Inl (AssertionError ''unhandled intersection geometry type''))
        else (py_setitem f1 ''type'' (PStr (geom_type sh g)), Inr True)
      else (f1, Inr False))"
  by (simp add: roi_filter_def Let_def)

lemma process_feature_Inr:
  "snd (process_feature sh tr (Some r) allow clip f) = Inr b \<longleftrightarrow>
     (\<exists>g f1. parse_feature sh tr f = Inr (g, f1) \<and> b = roi_keeps sh r allow g
        \<and> (b \<and> clip \<longrightarrow> polygonal sh (intersection sh r g)))"
  by (cases "parse_feature sh tr f")
     (auto simp: process_feature_def roi_filter_Some split: if_splits)

lemma process_feature_None:
  "snd (process_feature sh tr None allow clip f) = Inr b \<longleftrightarrow>
     (\<exists>g f1. parse_feature sh tr f = Inr (g, f1) \<and> b)"
  by (cases "parse_feature sh tr f")
     (auto simp: process_feature_def roi_filter_def)

lemma parse_feature_Inr:
  assumes "parse_feature sh tr f = Inr (g, f1)"
  shows "\<exists>d gd k. f = PDict d \<and> map_of d ''geometry'' = Some gd
           \<and> py_getitem gd ''type'' = Inr (PStr k) \<and> (k = ''Polygon'' \<or> k = ''MultiPolygon'')
           \<and> f1 = PDict (AList.update ''type'' (PStr k) (AList.update ''geometry'' (PGeom g) d))"
proof -
  obtain d where d: "f = PDict d"
    using assms by (cases f) (auto simp: parse_feature_def)
  obtain gd where gd: "map_of d ''geometry'' = Some gd"
    using assms d by (cases "map_of d ''geometry''") (auto simp: parse_feature_def)
  obtain ty where ty: "py_getitem gd ''type'' = Inr ty"
    using assms d gd by (cases "py_getitem gd ''type''") (auto simp: parse_feature_def)
  show ?thesis
    using assms d gd ty
    by (auto simp: parse_feature_def ebind_def Let_def
        split: if_splits sum.splits pyval.splits option.splits)
qed


lemma parse_geojson_Inr:
  assumes "parse_geojson py osr sh geojson srs_target roi allow clip = (geojson', Inr kept)"
  shows "\<exists>d features tr features'.
           geojson = PDict d \<and> map_of d ''features'' = Some (PList features)
         \<and> make_srs_transform py osr geojson srs_target = Inr tr
         \<and> parse_features sh tr roi allow clip features [] = (features', Inr kept)
         \<and> geojson' = PDict (AList.update ''features'' (PList features') d)"
  using assms
  by (auto simp: parse_geojson_def split: pyval.splits option.splits sum.splits prod.splits)

lemma parse_geojson_features:
  assumes "geojson = PDict d" and "map_of d ''features'' = Some (PList features)"
    and "make_srs_transform py osr geojson srs_target = Inr tr"
  shows "parse_geojson py osr sh geojson srs_target roi allow clip =
           (PDict (AList.update ''features''
                     (PList (fst (parse_features sh tr roi allow clip features []))) d),
            snd (parse_features sh tr roi allow clip features []))"
  using assms by (simp add: parse_geojson_def split: prod.splits)

lemma keep_filter_cong:
  assumes "\<forall>f\<in>set fs. \<exists>b. snd (process_feature sh tr (Some r) allow clip f) = Inr b"
  shows "filter (\<lambda>f. snd (process_feature sh tr (Some r) allow clip f) = Inr True) fs =
         filter (\<lambda>f. case parse_feature sh tr f of
                        Inl e \<Rightarrow> False
                      | Inr (g, f1) \<Rightarrow> (allow \<and> intersects sh r g) \<or> (\<not> allow \<and> contains sh r g)) fs"
proof (rule filter_cong [OF refl])
  fix f assume "f \<in> set fs"
  then obtain b where "snd (process_feature sh tr (Some r) allow clip f) = Inr b"
    using assms by blast
  then show "(snd (process_feature sh tr (Some r) allow clip f) = Inr True) =
        (case parse_feature sh tr f of
           Inl e \<Rightarrow> False
         | Inr (g, f1) \<Rightarrow> (allow \<and> intersects sh r g) \<or> (\<not> allow \<and> contains sh r g))"
    by (auto simp: process_feature_Inr roi_keeps_def)
qed

text \<open>
  Claim C4. When \<^verbatim>\<open>parse_geojson\<close> is called with an ROI and returns, every feature
  of the collection has been parsed, and the returned list consists, in the order of
  the input, of the features whose parsed and reprojected geometry \<open>g\<close> satisfies:
  \<open>allow_outlying\<close> and the ROI intersects \<open>g\<close>, or not \<open>allow_outlying\<close> and the ROI
  contains \<open>g\<close>; each in its state after the call. Without clipping, the call returns
  this list whenever the collection is well formed and every feature can be parsed. In
  particular, for a collection of one feature that straddles the ROI (the ROI intersects
  it and does not contain it) and without clipping, the feature is returned when
  \<open>allow_outlying\<close> is true and the returned list is empty when it is false.
\<close>

theorem parse_geojson_roi_filter:
  "(parse_geojson py osr sh geojson srs_target (Some roi) allow_outlying clip_outlying
      = (geojson', Inr kept)
    \<longrightarrow> (\<exists>d features tr.
           geojson = PDict d \<and> map_of d ''features'' = Some (PList features)
         \<and> make_srs_transform py osr geojson srs_target = Inr tr
         \<and> (\<forall>f\<in>set features. \<exists>g f1. parse_feature sh tr f = Inr (g, f1))
         \<and> kept =
             map (\<lambda>f. fst (process_feature sh tr (Some roi) allow_outlying clip_outlying f))
               (filter (\<lambda>f. case parse_feature sh tr f of
                               Inl e \<Rightarrow> False
                             | Inr (g, f1) \<Rightarrow>
                                 (allow_outlying \<and> intersects sh roi g)
                                 \<or> (\<not> allow_outlying \<and> contains sh roi g))
                  features)))
   \<and> (geojson = PDict d \<and> map_of d ''features'' = Some (PList features)
       \<and> make_srs_transform py osr geojson srs_target = Inr tr
       \<and> (\<forall>f\<in>set features. \<exists>g f1. parse_feature sh tr f = Inr (g, f1))
      \<longrightarrow> snd (parse_geojson py osr sh geojson srs_target (Some roi) allow_outlying False)
            = Inr (map (\<lambda>f. fst (process_feature sh tr (Some roi) allow_outlying False f))
                     (filter (\<lambda>f. case parse_feature sh tr f of
                                     Inl e \<Rightarrow> False
                                   | Inr (g, f1) \<Rightarrow>
                                       (allow_outlying \<and> intersects sh roi g)
                                       \<or> (\<not> allow_outlying \<and> contains sh roi g))
                        features))
          \<and> (\<forall>f g f1. features = [f] \<and> parse_feature sh tr f = Inr (g, f1)
                 \<and> intersects sh roi g \<and> \<not> contains sh roi g
               \<longrightarrow> snd (parse_geojson py osr sh geojson srs_target (Some roi) True False)
                     = Inr [py_setitem f1 ''type'' (PStr (geom_type sh g))]
                 \<and> snd (parse_geojson py osr sh geojson srs_target (Some roi) False False)
                     = Inr []))"
proof (intro conjI impI)
  assume a: "parse_geojson py osr sh geojson srs_target (Some roi) allow_outlying clip_outlying
      = (geojson', Inr kept)"
  from parse_geojson_Inr [OF a] obtain d features tr features' where
    g: "geojson = PDict d" "map_of d ''features'' = Some (PList features)"
       "make_srs_transform py osr geojson srs_target = Inr tr"
    and pf: "parse_features sh tr (Some roi) allow_outlying clip_outlying features []
               = (features', Inr kept)"
    by blast
  note r = parse_features_Inr [OF pf]
  have ok: "\<forall>f\<in>set features.
              \<exists>b. snd (process_feature sh tr (Some roi) allow_outlying clip_outlying f) = Inr b"
    using r by blast
  have "\<forall>f\<in>set features. \<exists>g f1. parse_feature sh tr f = Inr (g, f1)"
    using ok by (metis process_feature_Inr)
  moreover have "kept =
             map (\<lambda>f. fst (process_feature sh tr (Some roi) allow_outlying clip_outlying f))
               (filter (\<lambda>f. case parse_feature sh tr f of
                               Inl e \<Rightarrow> False
                             | Inr (g, f1) \<Rightarrow>
                                 (allow_outlying \<and> intersects sh roi g)
                                 \<or> (\<not> allow_outlying \<and> contains sh roi g))
                  features)"
    using r keep_filter_cong [OF ok] by simp
  ultimately show "\<exists>d features tr.
           geojson = PDict d \<and> map_of d ''features'' = Some (PList features)
         \<and> make_srs_transform py osr geojson srs_target = Inr tr
         \<and> (\<forall>f\<in>set features. \<exists>g f1. parse_feature sh tr f = Inr (g, f1))
         \<and> kept =
             map (\<lambda>f. fst (process_feature sh tr (Some roi) allow_outlying clip_outlying f))
               (filter (\<lambda>f. case parse_feature sh tr f of
                               Inl e \<Rightarrow> False
                             | Inr (g, f1) \<Rightarrow>
                                 (allow_outlying \<and> intersects sh roi g)
                                 \<or> (\<not> allow_outlying \<and> contains sh roi g))
                  features)"
    using g by blast
next
  assume a: "geojson = PDict d \<and> map_of d ''features'' = Some (PList features)
       \<and> make_srs_transform py osr geojson srs_target = Inr tr
       \<and> (\<forall>f\<in>set features. \<exists>g f1. parse_feature sh tr f = Inr (g, f1))"
  have ok: "\<forall>f\<in>set features.
              \<exists>b. snd (process_feature sh tr (Some roi) allow False f) = Inr b" for allow
    using a by (simp add: process_feature_Inr)
  have pg: "snd (parse_geojson py osr sh geojson srs_target (Some roi) allow False) =
        snd (parse_features sh tr (Some roi) allow False features [])" for allow
    using a parse_geojson_features [of geojson d features py osr srs_target tr sh] by auto
  show "snd (parse_geojson py osr sh geojson srs_target (Some roi) allow_outlying False)
            = Inr (map (\<lambda>f. fst (process_feature sh tr (Some roi) allow_outlying False f))
                     (filter (\<lambda>f. case parse_feature sh tr f of
                                     Inl e \<Rightarrow> False
                                   | Inr (g, f1) \<Rightarrow>
                                       (allow_outlying \<and> intersects sh roi g)
                                       \<or> (\<not> allow_outlying \<and> contains sh roi g))
                        features))"
    unfolding pg parse_features_returns [OF ok] keep_filter_cong [OF ok] by simp
  show "\<forall>f g f1. features = [f] \<and> parse_feature sh tr f = Inr (g, f1)
                 \<and> intersects sh roi g \<and> \<not> contains sh roi g
               \<longrightarrow> snd (parse_geojson py osr sh geojson srs_target (Some roi) True False)
                     = Inr [py_setitem f1 ''type'' (PStr (geom_type sh g))]
                 \<and> snd (parse_geojson py osr sh geojson srs_target (Some roi) False False)
                     = Inr []"
    unfolding pg
    by (auto simp: process_feature_def roi_filter_Some roi_keeps_def)
qed

lemma kept_zip:
  assumes ok: "\<forall>f\<in>set fs. \<exists>b. snd (process_feature sh tr roi allow clip f) = Inr b"
  shows "map (\<lambda>f. fst (process_feature sh tr roi allow clip f))
           (filter (\<lambda>f. snd (process_feature sh tr roi allow clip f) = Inr True) fs)
       = map snd (filter (\<lambda>(f, f'). case roi of
                                      None \<Rightarrow> True
                                    | Some r \<Rightarrow>
                                        (case parse_feature sh tr f of
                                           Inl e \<Rightarrow> False
                                         | Inr (g, f1) \<Rightarrow> roi_keeps sh r allow g))
                    (zip fs (map (\<lambda>f. fst (process_feature sh tr roi allow clip f)) fs)))"
  using ok
proof (induction fs)
  case Nil
  then show ?case by simp
next
  case (Cons f fs)
  then obtain b where b: "snd (process_feature sh tr roi allow clip f) = Inr b" by auto
  have "(snd (process_feature sh tr roi allow clip f) = Inr True) =
          (case roi of
             None \<Rightarrow> True
           | Some r \<Rightarrow>
               (case parse_feature sh tr f of
                  Inl e \<Rightarrow> False
                | Inr (g, f1) \<Rightarrow> roi_keeps sh r allow g))"
  proof (cases roi)
    case None
    then show ?thesis using b by (auto simp: process_feature_None)
  next
    case (Some r)
    then show ?thesis using b by (auto simp: process_feature_Inr)
  qed
  then show ?case using Cons by simp
qed

lemma roi_filter_entries:
  assumes res: "snd (roi_filter sh roi allow clip g (PDict al)) = Inr b"
    and gm: "map_of al ''geometry'' = Some (PGeom g)"
    and ty: "map_of al ''type'' = Some (PStr k)"
  shows "b = (case roi of None \<Rightarrow> True | Some r \<Rightarrow> roi_keeps sh r allow g)
       \<and> (case (case roi of
                   None \<Rightarrow> (g, k)
                 | Some r \<Rightarrow>
                     if roi_keeps sh r allow g
                     then if clip then (intersection sh r g, geom_type sh (intersection sh r g))
                          else (g, geom_type sh g)
                     else (g, k)) of
             (final_geom, final_type) \<Rightarrow>
               py_getitem (fst (roi_filter sh roi allow clip g (PDict al))) ''geometry''
                 = Inr (PGeom final_geom)
             \<and> py_getitem (fst (roi_filter sh roi allow clip g (PDict al))) ''type''
                 = Inr (PStr final_type))
       \<and> (\<forall>key. key \<noteq> ''geometry'' \<and> key \<noteq> ''type''
             \<longrightarrow> py_getitem (fst (roi_filter sh roi allow clip g (PDict al))) key
                 = py_getitem (PDict al) key)"
proof (cases roi)
  case None
  then show ?thesis using res gm ty by (simp add: roi_filter_def)
next
  case (Some r)
  show ?thesis
  proof (cases "roi_keeps sh r allow g")
    case False
    then show ?thesis using res gm ty Some by (simp add: roi_filter_Some)
  next
    case True
    show ?thesis
    proof (cases clip)
      case False
      then show ?thesis using res gm ty Some True
        by (simp add: roi_filter_Some update_conv')
    next
      case clip: True
      then have "polygonal sh (intersection sh r g)"
        using res Some True by (simp add: roi_filter_Some split: if_splits)
      then show ?thesis using res gm ty Some True clip
        by (simp add: roi_filter_Some update_conv')
    qed
  qed
qed


lemma process_feature_final:
  assumes "snd (process_feature sh tr roi allow clip f) = Inr b"
  shows "\<exists>fd gd k g.
           f = PDict fd \<and> map_of fd ''geometry'' = Some gd
         \<and> py_getitem gd ''type'' = Inr (PStr k) \<and> (k = ''Polygon'' \<or> k = ''MultiPolygon'')
         \<and> parse_feature sh tr f =
             Inr (g, PDict (AList.update ''type'' (PStr k)
                              (AList.update ''geometry'' (PGeom g) fd)))
         \<and> b = (case roi of None \<Rightarrow> True | Some r \<Rightarrow> roi_keeps sh r allow g)
         \<and> (case (case roi of
                     None \<Rightarrow> (g, k)
                   | Some r \<Rightarrow>
                       if roi_keeps sh r allow g
                       then if clip then (intersection sh r g, geom_type sh (intersection sh r g))
                            else (g, geom_type sh g)
                       else (g, k)) of
               (final_geom, final_type) \<Rightarrow>
                 py_getitem (fst (process_feature sh tr roi allow clip f)) ''geometry''
                   = Inr (PGeom final_geom)
               \<and> py_getitem (fst (process_feature sh tr roi allow clip f)) ''type''
                   = Inr (PStr final_type))
         \<and> (\<forall>key. key \<noteq> ''geometry'' \<and> key \<noteq> ''type''
               \<longrightarrow> py_getitem (fst (process_feature sh tr roi allow clip f)) key
                   = py_getitem f key)"
proof -
  obtain g f1 where pf: "parse_feature sh tr f = Inr (g, f1)"
    using assms by (cases "parse_feature sh tr f") (auto simp: process_feature_def)
  from parse_feature_Inr [OF pf] obtain fd gd k where
    f: "f = PDict fd" and gd: "map_of fd ''geometry'' = Some gd"
    and k: "py_getitem gd ''type'' = Inr (PStr k)" "k = ''Polygon'' \<or> k = ''MultiPolygon''"
    and f1: "f1 = PDict (AList.update ''type'' (PStr k) (AList.update ''geometry'' (PGeom g) fd))"
    by blast
  let ?al = "AList.update ''type'' (PStr k) (AList.update ''geometry'' (PGeom g) fd)"
  have fin: "process_feature sh tr roi allow clip f = roi_filter sh roi allow clip g (PDict ?al)"
    using pf f1 by (simp add: process_feature_def)
  have res: "snd (roi_filter sh roi allow clip g (PDict ?al)) = Inr b"
    using assms fin by simp
  have gm: "map_of ?al ''geometry'' = Some (PGeom g)" by (simp add: update_conv')
  have ty: "map_of ?al ''type'' = Some (PStr k)" by (simp add: update_conv')
  have frame: "py_getitem (PDict ?al) key = py_getitem f key"
    if "key \<noteq> ''geometry'' \<and> key \<noteq> ''type''" for key
    using that f by (simp add: update_conv')
  note e = roi_filter_entries [OF res gm ty]
  have 1: "parse_feature sh tr f = Inr (g, PDict ?al)" using pf f1 by simp
  have 2: "\<forall>key. key \<noteq> ''geometry'' \<and> key \<noteq> ''type''
               \<longrightarrow> py_getitem (fst (process_feature sh tr roi allow clip f)) key
                   = py_getitem f key"
    using e frame unfolding fin by simp
  from e have 3: "b = (case roi of None \<Rightarrow> True | Some r \<Rightarrow> roi_keeps sh r allow g)"
    by (rule conjunct1)
  from e have 4: "(case (case roi of
                     None \<Rightarrow> (g, k)
                   | Some r \<Rightarrow>
                       if roi_keeps sh r allow g
                       then if clip then (intersection sh r g, geom_type sh (intersection sh r g))
                            else (g, geom_type sh g)
                       else (g, k)) of
               (final_geom, final_type) \<Rightarrow>
                 py_getitem (fst (process_feature sh tr roi allow clip f)) ''geometry''
                   = Inr (PGeom final_geom)
               \<and> py_getitem (fst (process_feature sh tr roi allow clip f)) ''type''
                   = Inr (PStr final_type))"
    unfolding fin by (rule conjunct1 [OF conjunct2])
  show ?thesis
    by (intro exI [of _ fd] exI [of _ gd] exI [of _ k] exI [of _ g] conjI f gd k 1 2 3 4)
qed


text \<open>
  Claim C10. \<^verbatim>\<open>parse_geojson\<close> mutates the features of its input in place. When
  the call returns, the object \<open>geojson\<close> holds a list of features of the same length,
  and every feature of the input had a geometry of type Polygon or MultiPolygon; the
  returned list selects, among the features after the call, those that pass the ROI
  test. For every feature, also one that is filtered out and so absent from the
  returned list, the \<open>geometry\<close> entry now holds the parsed and reprojected geometry
  object and the \<open>type\<close> entry the geometry type; for a feature that is kept, the type
  is the one of the geometry object, and with \<open>clip_outlying\<close> the geometry is
  replaced once more, by its intersection with the ROI. The other entries of the
  feature are unchanged.
\<close>

theorem parse_geojson_mutates_features:
  assumes "parse_geojson py osr sh geojson srs_target roi allow_outlying clip_outlying
             = (geojson', Inr kept)"
  shows "\<exists>d features tr features'.
           geojson = PDict d \<and> map_of d ''features'' = Some (PList features)
         \<and> make_srs_transform py osr geojson srs_target = Inr tr
         \<and> geojson' = PDict (AList.update ''features'' (PList features') d)
         \<and> length features' = length features
         \<and> kept = map snd (filter (\<lambda>(f, f'). case roi of
                                                None \<Rightarrow> True
                                              | Some r \<Rightarrow>
                                                  (case parse_feature sh tr f of
                                                     Inl e \<Rightarrow> False
                                                   | Inr (g, f1) \<Rightarrow> roi_keeps sh r allow_outlying g))
                              (zip features features'))
         \<and> (\<forall>i<length features. \<exists>fd gd k g.
               features ! i = PDict fd \<and> map_of fd ''geometry'' = Some gd
             \<and> py_getitem gd ''type'' = Inr (PStr k) \<and> (k = ''Polygon'' \<or> k = ''MultiPolygon'')
             \<and> parse_feature sh tr (features ! i) =
                 Inr (g, PDict (AList.update ''type'' (PStr k)
                                  (AList.update ''geometry'' (PGeom g) fd)))
             \<and> (case (case roi of
                         None \<Rightarrow> (g, k)
                       | Some r \<Rightarrow>
                           if roi_keeps sh r allow_outlying g
                           then if clip_outlying
                                then (intersection sh r g, geom_type sh (intersection sh r g))
                                else (g, geom_type sh g)
                           else (g, k)) of
                   (final_geom, final_type) \<Rightarrow>
                     py_getitem (features' ! i) ''geometry'' = Inr (PGeom final_geom)
                   \<and> py_getitem (features' ! i) ''type'' = Inr (PStr final_type))
             \<and> (\<forall>key. key \<noteq> ''geometry'' \<and> key \<noteq> ''type''
                   \<longrightarrow> py_getitem (features' ! i) key = py_getitem (features ! i) key))"
proof -
  from parse_geojson_Inr [OF assms] obtain d features tr features' where
    g: "geojson = PDict d" "map_of d ''features'' = Some (PList features)"
       "make_srs_transform py osr geojson srs_target = Inr tr"
       "geojson' = PDict (AList.update ''features'' (PList features') d)"
    and pf: "parse_features sh tr roi allow_outlying clip_outlying features []
               = (features', Inr kept)"
    by blast
  note r = parse_features_Inr [OF pf]
  have len: "length features' = length features" using r by simp
  have ok: "\<forall>f\<in>set features.
              \<exists>b. snd (process_feature sh tr roi allow_outlying clip_outlying f) = Inr b"
    using r by blast
  have kp: "kept = map snd (filter (\<lambda>(f, f'). case roi of
                                                None \<Rightarrow> True
                                              | Some r \<Rightarrow>
                                                  (case parse_feature sh tr f of
                                                     Inl e \<Rightarrow> False
                                                   | Inr (g, f1) \<Rightarrow> roi_keeps sh r allow_outlying g))
                              (zip features features'))"
    using r kept_zip [OF ok] by simp
  have each: "\<exists>fd gd k g.
               features ! i = PDict fd \<and> map_of fd ''geometry'' = Some gd
             \<and> py_getitem gd ''type'' = Inr (PStr k) \<and> (k = ''Polygon'' \<or> k = ''MultiPolygon'')
             \<and> parse_feature sh tr (features ! i) =
                 Inr (g, PDict (AList.update ''type'' (PStr k)
                                  (AList.update ''geometry'' (PGeom g) fd)))
             \<and> (case (case roi of
                         None \<Rightarrow> (g, k)
                       | Some r \<Rightarrow>
                           if roi_keeps sh r allow_outlying g
                           then if clip_outlying
                                then (intersection sh r g, geom_type sh (intersection sh r g))
                                else (g, geom_type sh g)
                           else (g, k)) of
                   (final_geom, final_type) \<Rightarrow>
                     py_getitem (features' ! i) ''geometry'' = Inr (PGeom final_geom)
                   \<and> py_getitem (features' ! i) ''type'' = Inr (PStr final_type))
             \<and> (\<forall>key. key \<noteq> ''geometry'' \<and> key \<noteq> ''type''
                   \<longrightarrow> py_getitem (features' ! i) key = py_getitem (features ! i) key)"
    if i: "i < length features" for i
  proof -
    let ?P = "process_feature sh tr roi allow_outlying clip_outlying"
    have mem: "features ! i \<in> set features" using i by simp
    then obtain b where b: "snd (?P (features ! i)) = Inr b"
      using r by blast
    have nth: "features' ! i = fst (?P (features ! i))"
      using r i by simp
    from process_feature_final [OF b] obtain fd gd k g where
      1: "features ! i = PDict fd" and 2: "map_of fd ''geometry'' = Some gd"
      and 3: "py_getitem gd ''type'' = Inr (PStr k)" and 4: "k = ''Polygon'' \<or> k = ''MultiPolygon''"
      and 5: "parse_feature sh tr (features ! i) =
                 Inr (g, PDict (AList.update ''type'' (PStr k)
                                  (AList.update ''geometry'' (PGeom g) fd)))"
      and 6: "b = (case roi of None \<Rightarrow> True | Some r \<Rightarrow> roi_keeps sh r allow_outlying g)"
      and 7: "(case (case roi of
                         None \<Rightarrow> (g, k)
                       | Some r \<Rightarrow>
                           if roi_keeps sh r allow_outlying g
                           then if clip_outlying
                                then (intersection sh r g, geom_type sh (intersection sh r g))
                                else (g, geom_type sh g)
                           else (g, k)) of
                   (final_geom, final_type) \<Rightarrow>
                     py_getitem (fst (?P (features ! i))) ''geometry'' = Inr (PGeom final_geom)
                   \<and> py_getitem (fst (?P (features ! i))) ''type'' = Inr (PStr final_type))"
      and 8: "\<forall>key. key \<noteq> ''geometry'' \<and> key \<noteq> ''type''
                   \<longrightarrow> py_getitem (fst (?P (features ! i))) key = py_getitem (features ! i) key"
      by (elim exE conjE)
    show ?thesis
      unfolding nth
      by (intro exI [of _ fd] exI [of _ gd] exI [of _ k] exI [of _ g] conjI
          1 2 3 4 5 7 8)
  qed
  show ?thesis
    by (intro exI [of _ d] exI [of _ features] exI [of _ tr] exI [of _ features'] conjI g len kp
        allI impI each)
qed

text \<open>The feature parser on concrete collections of squares, with the ROI \<open>(0, 0, 10, 10)\<close>.\<close>

lemmas rect_eval =
  parse_geojson_def make_srs_transform_def parse_coordinate_system_def crs_body_of_def
  ascii_builtins_def ascii_upper_def rect_osr_def decimal_of_str_def process_feature_def
  parse_feature_def roi_filter_def roi_keeps_def polygonal_def rect_shapely_def rect_of_ring_def
  rect_contains_def rect_intersects_def rect_intersection_def rect_type_def
  feature_collection_def collection_entries_def polygon_feature_def square_ring_def
  parsed_feature_def Let_def

lemma straddle_allow:
  "parse_geojson ascii_builtins rect_osr rect_shapely
     (feature_collection [polygon_feature ''s'' (square_ring 8 8 12 12)])
     None (Some (0, 0, 10, 10)) True False
   = (feature_collection [parsed_feature ''s'' ''Polygon'' (8, 8, 12, 12)],
      Inr [parsed_feature ''s'' ''Polygon'' (8, 8, 12, 12)])"
  by (simp add: rect_eval)

lemma straddle_parse:
  "parse_feature rect_shapely None (polygon_feature ''s'' (square_ring 8 8 12 12))
     = Inr ((8, 8, 12, 12), parsed_feature ''s'' ''Polygon'' (8, 8, 12, 12))"
  by (simp add: rect_eval)

lemma collection_transform:
  "make_srs_transform ascii_builtins rect_osr (feature_collection fs) None = Inr None"
  by (simp add: rect_eval)

lemma reprojected_two:
  "parse_geojson ascii_builtins rect_osr rect_shapely
     (feature_collection [polygon_feature ''a'' (square_ring 1 1 4 4),
                          polygon_feature ''b'' (square_ring 20 20 22 22)])
     (Some (SrsStr ''EPSG:4328'')) (Some (0, 0, 10, 10)) False False
   = (feature_collection [parsed_feature ''a'' ''Polygon'' (3, 1, 6, 4),
                          parsed_feature ''b'' ''Polygon'' (22, 20, 24, 22)],
      Inr [parsed_feature ''a'' ''Polygon'' (3, 1, 6, 4)])"
  by (simp add: rect_eval)

theorem parse_geojson_roi_filter_witness:
  "parse_geojson ascii_builtins rect_osr rect_shapely
     (feature_collection [polygon_feature ''s'' (square_ring 8 8 12 12)])
     None (Some (0, 0, 10, 10)) True False
   = (feature_collection [parsed_feature ''s'' ''Polygon'' (8, 8, 12, 12)],
      Inr [parsed_feature ''s'' ''Polygon'' (8, 8, 12, 12)])
   \<and> feature_collection [polygon_feature ''s'' (square_ring 8 8 12 12)]
       = PDict (collection_entries [polygon_feature ''s'' (square_ring 8 8 12 12)])
   \<and> map_of (collection_entries [polygon_feature ''s'' (square_ring 8 8 12 12)]) ''features''
       = Some (PList [polygon_feature ''s'' (square_ring 8 8 12 12)])
   \<and> make_srs_transform ascii_builtins rect_osr
        (feature_collection [polygon_feature ''s'' (square_ring 8 8 12 12)]) None = Inr None
   \<and> parse_feature rect_shapely None (polygon_feature ''s'' (square_ring 8 8 12 12))
       = Inr ((8, 8, 12, 12), parsed_feature ''s'' ''Polygon'' (8, 8, 12, 12))
   \<and> intersects rect_shapely (0, 0, 10, 10) (8, 8, 12, 12)
   \<and> \<not> contains rect_shapely (0, 0, 10, 10) (8, 8, 12, 12)
   \<and> snd (parse_geojson ascii_builtins rect_osr rect_shapely
            (feature_collection [polygon_feature ''s'' (square_ring 8 8 12 12)])
            None (Some (0, 0, 10, 10)) True False)
       = Inr [py_setitem (parsed_feature ''s'' ''Polygon'' (8, 8, 12, 12)) ''type''
                (PStr (geom_type rect_shapely (8, 8, 12, 12)))]
   \<and> snd (parse_geojson ascii_builtins rect_osr rect_shapely
            (feature_collection [polygon_feature ''s'' (square_ring 8 8 12 12)])
            None (Some (0, 0, 10, 10)) False False)
       = Inr []"
proof -
  let ?f = "polygon_feature ''s'' (square_ring 8 8 12 12)"
  let ?f1 = "parsed_feature ''s'' ''Polygon'' (8, 8, 12, 12)"
  have h1: "parse_geojson ascii_builtins rect_osr rect_shapely (feature_collection [?f])
              None (Some (0, 0, 10, 10)) True False
            = (feature_collection [?f1], Inr [?f1])"
    by (rule straddle_allow)
  have h2: "feature_collection [?f] = PDict (collection_entries [?f])"
    by (simp add: feature_collection_def)
  have h3: "map_of (collection_entries [?f]) ''features'' = Some (PList [?f])"
    by (simp add: collection_entries_def)
  have h4: "make_srs_transform ascii_builtins rect_osr (feature_collection [?f]) None = Inr None"
    by (rule collection_transform)
  have h5: "parse_feature rect_shapely None ?f = Inr ((8, 8, 12, 12), ?f1)"
    by (rule straddle_parse)
  have h6: "intersects rect_shapely (0, 0, 10, 10) (8, 8, 12, 12)"
    by (simp add: rect_shapely_def rect_intersects_def rect_intersection_def)
  have h7: "\<not> contains rect_shapely (0, 0, 10, 10) (8, 8, 12, 12)"
    by (simp add: rect_shapely_def rect_contains_def)
  have h8: "\<forall>f\<in>set [?f]. \<exists>g f1. parse_feature rect_shapely None f = Inr (g, f1)"
    using h5 by simp
  note inst = parse_geojson_roi_filter [where py = ascii_builtins and osr = rect_osr
      and sh = rect_shapely and geojson = "feature_collection [?f]" and srs_target = None
      and roi = "(0, 0, 10, 10)" and allow_outlying = True and clip_outlying = False
      and geojson' = "feature_collection [?f1]" and kept = "[?f1]"
      and d = "collection_entries [?f]" and features = "[?f]" and tr = None]
  from inst h2 h3 h4 h8 h5 h6 h7
  have c: "snd (parse_geojson ascii_builtins rect_osr rect_shapely (feature_collection [?f])
                  None (Some (0, 0, 10, 10)) True False)
             = Inr [py_setitem ?f1 ''type'' (PStr (geom_type rect_shapely (8, 8, 12, 12)))]
         \<and> snd (parse_geojson ascii_builtins rect_osr rect_shapely (feature_collection [?f])
                  None (Some (0, 0, 10, 10)) False False)
             = Inr []"
    by blast
  from h1 h2 h3 h4 h5 h6 h7 c show ?thesis by blast
qed

theorem parse_geojson_mutates_features_witness:
  "parse_geojson ascii_builtins rect_osr rect_shapely
     (feature_collection [polygon_feature ''a'' (square_ring 1 1 4 4),
                          polygon_feature ''b'' (square_ring 20 20 22 22)])
     (Some (SrsStr ''EPSG:4328'')) (Some (0, 0, 10, 10)) False False
   = (feature_collection [parsed_feature ''a'' ''Polygon'' (3, 1, 6, 4),
                          parsed_feature ''b'' ''Polygon'' (22, 20, 24, 22)],
      Inr [parsed_feature ''a'' ''Polygon'' (3, 1, 6, 4)])
   \<and> \<not> roi_keeps rect_shapely (0, 0, 10, 10) False (22, 20, 24, 22)
   \<and> py_getitem (parsed_feature ''b'' ''Polygon'' (22, 20, 24, 22)) ''geometry''
       = Inr (PGeom (22, 20, 24, 22))
   \<and> py_getitem (parsed_feature ''b'' ''Polygon'' (22, 20, 24, 22)) ''type''
       = Inr (PStr ''Polygon'')"
proof -
  have h: "parse_geojson ascii_builtins rect_osr rect_shapely
     (feature_collection [polygon_feature ''a'' (square_ring 1 1 4 4),
                          polygon_feature ''b'' (square_ring 20 20 22 22)])
     (Some (SrsStr ''EPSG:4328'')) (Some (0, 0, 10, 10)) False False
   = (feature_collection [parsed_feature ''a'' ''Polygon'' (3, 1, 6, 4),
                          parsed_feature ''b'' ''Polygon'' (22, 20, 24, 22)],
      Inr [parsed_feature ''a'' ''Polygon'' (3, 1, 6, 4)])"
    by (rule reprojected_two)
  have c1: "\<not> roi_keeps rect_shapely (0, 0, 10, 10) False (22, 20, 24, 22)"
    by (simp add: roi_keeps_def rect_shapely_def rect_contains_def)
  have c2: "py_getitem (parsed_feature ''b'' ''Polygon'' (22, 20, 24, 22)) ''geometry''
       = Inr (PGeom (22, 20, 24, 22))"
    by (simp add: parsed_feature_def)
  have c3: "py_getitem (parsed_feature ''b'' ''Polygon'' (22, 20, 24, 22)) ''type''
       = Inr (PStr ''Polygon'')"
    by (simp add: parsed_feature_def)
  show ?thesis
    using parse_geojson_mutates_features [OF h] h c1 c2 c3
    apply -
    apply (intro conjI)
       apply assumption+
    done
qed

end
